(* ===== verification/Prelude.thy ===== *)
theory Prelude
  imports Main
begin

text \<open>
  Shared vocabulary of the development: the identifier types of the three
  tables, the session type, the theorem collections the component theories
  fill, and generic lemmas on lists and \<open>find\<close> that the component proofs use
  through \<open>simp\<close> and \<open>auto\<close>.
\<close>

section \<open>Names for the model's types\<close>

type_synonym uid = nat        \<comment> \<open>\<open>User.id\<close>, an SQLite rowid\<close>
type_synonym aid = nat        \<comment> \<open>\<open>Activity.id\<close>\<close>
type_synonym fid = nat        \<comment> \<open>\<open>Feedback.id\<close>\<close>
type_synonym timestamp = nat  \<comment> \<open>\<open>datetime.utcnow()\<close>, as a count of ticks\<close>

text \<open>
  The Flask session of one client: the value of \<open>session['user_id']\<close>, or
  \<open>None\<close> when the key is absent.
\<close>

type_synonym sess = "uid option"

section \<open>Theorem collections\<close>

named_theorems handler_defs "definitions of the request handlers, unfolded together"
named_theorems inv_intros "facts that establish the database invariant after a write"
named_theorems response_sets "the responses each handler can return"

section \<open>Generic lemmas on lists\<close>

lemma find_None_iff_all: "find P xs = None \<longleftrightarrow> (\<forall>x\<in>set xs. \<not> P x)"
  by (induction xs) auto

lemma find_Some_mem: "find P xs = Some x \<Longrightarrow> x \<in> set xs \<and> P x"
  by (induction xs) (auto split: if_splits)

lemma find_unique:
  assumes "distinct (map f xs)" "x \<in> set xs" "P = (\<lambda>y. f y = f x)"
  shows "find P xs = Some x"
  using assms
proof (induction xs)
  case Nil
  then show ?case by simp
next
  case (Cons y ys)
  show ?case
  proof (cases "f y = f x")
    case True
    with Cons.prems have "y = x" by (auto simp: image_iff)
    with Cons.prems show ?thesis by simp
  next
    case False
    with Cons.prems Cons.IH show ?thesis by auto
  qed
qed

lemma find_append_list:
  "find P (xs @ ys) = (case find P xs of None \<Rightarrow> find P ys | Some x \<Rightarrow> Some x)"
  by (induction xs) auto

lemma find_filter_conj: "find P (filter Q xs) = find (\<lambda>x. P x \<and> Q x) xs"
  by (induction xs) auto

lemma find_cong_set: "(\<And>x. x \<in> set xs \<Longrightarrow> P x = P' x) \<Longrightarrow> find P xs = find P' xs"
  by (induction xs) auto

lemma find_map_pred_inv:
  "(\<And>x. P (f x) = P x) \<Longrightarrow> find P (map f xs) = map_option f (find P xs)"
  by (induction xs) auto

lemma sorted_wrt_less_append_single:
  "sorted_wrt (<) (xs @ [x :: nat]) \<longleftrightarrow> sorted_wrt (<) xs \<and> (\<forall>y\<in>set xs. y < x)"
  by (auto simp: sorted_wrt_append)

lemma foldr_max_ge: "y \<in> set xs \<Longrightarrow> y \<le> foldr max xs (0::nat)"
  by (induction xs) auto

lemma distinct_map_filter_keep: "distinct (map f xs) \<Longrightarrow> distinct (map f (filter P xs))"
  by (simp add: distinct_map_filter)

lemma distinct_map_eqD:
  "distinct (map f xs) \<Longrightarrow> a \<in> set xs \<Longrightarrow> b \<in> set xs \<Longrightarrow> f a = f b \<Longrightarrow> a = b"
  by (auto simp: distinct_map dest: inj_onD)

lemma filter_key_singleton:
  "distinct (map f xs) \<Longrightarrow> a \<in> set xs \<Longrightarrow> filter (\<lambda>x. f x = f a) xs = [a]"
proof (induction xs)
  case Nil
  then show ?case by simp
next
  case (Cons y ys)
  show ?case
  proof (cases "y = a")
    case True
    with Cons.prems have "\<forall>x\<in>set ys. f x \<noteq> f a" by (force simp: image_iff)
    with True show ?thesis by (simp add: filter_empty_conv)
  next
    case False
    with Cons.prems have "f y \<noteq> f a" "a \<in> set ys" "distinct (map f ys)" by auto
    with Cons.IH show ?thesis by simp
  qed
qed

lemma those_None_iff: "those xs = None \<longleftrightarrow> None \<in> set xs"
  by (induction xs) (auto split: option.splits)

lemma those_length: "those xs = Some ys \<Longrightarrow> length ys = length xs"
  by (induction xs arbitrary: ys) (auto split: option.splits)

end
