(* ===== verification/PyLib.thy ===== *)
theory PyLib
  imports Prelude Complex_Main "HOL-Library.List_Lexorder" "HOL-Library.Char_ord"
begin

text \<open>
  The Python builtins that \<open>src/app.py\<close> calls on request data: \<open>str.split\<close>,
  \<open>int()\<close> on a string, the zero-padded decimal formatting behind
  \<open>date.isoformat()\<close> and \<open>strftime\<close>, and \<open>sum\<close>, \<open>max\<close>, \<open>min\<close> and
  \<open>round(x, 2)\<close> on lists of numbers. Strings are byte lists; only the ASCII
  behaviour of \<open>int()\<close> is modelled (see the root header). Floats are modelled
  as exact reals.
\<close>

section \<open>\<open>str.split(sep)\<close>\<close>

text \<open>
  \<open>s.split(c)\<close> with an explicit one-character separator cuts at every
  occurrence and keeps empty pieces: \<open>''''.split('':'') = ['''']\<close>.
\<close>

fun split_on :: "char \<Rightarrow> string \<Rightarrow> string list" where
  "split_on c [] = [[]]"
| "split_on c (x # xs) =
     (let r = split_on c xs in if x = c then [] # r else (x # hd r) # tl r)"

section \<open>\<open>int(s)\<close> on a string\<close>

text \<open>
  CPython's \<open>int(s)\<close>: surrounding whitespace is skipped, one optional sign,
  then decimal digits in which single underscores may separate digits. Any
  other input raises \<open>ValueError\<close>, modelled as \<open>None\<close>. The whitespace set is
  the ASCII part of \<open>str.isspace\<close>.
\<close>

definition is_space :: "char \<Rightarrow> bool" where
  "is_space c \<longleftrightarrow> of_char c \<in> {9, 10, 11, 12, 13, 28, 29, 30, 31, 32 :: nat}"

definition is_digit :: "char \<Rightarrow> bool" where
  "is_digit c \<longleftrightarrow> 48 \<le> (of_char c :: nat) \<and> (of_char c :: nat) \<le> 57"

definition digit_val :: "char \<Rightarrow> nat" where
  "digit_val c = of_char c - 48"

definition strip :: "string \<Rightarrow> string" where
  "strip s = rev (dropWhile is_space (rev (dropWhile is_space s)))"

text \<open>
  The digit scanner: \<open>ok\<close> says that the last character read was a digit, so
  an underscore may follow and the input may end.
\<close>

fun dig_run :: "nat \<Rightarrow> bool \<Rightarrow> string \<Rightarrow> nat option" where
  "dig_run acc ok [] = (if ok then Some acc else None)"
| "dig_run acc ok (c # cs) =
     (if is_digit c then dig_run (10 * acc + digit_val c) True cs
      else if c = CHR ''_'' \<and> ok then dig_run acc False cs
      else None)"

definition py_int :: "string \<Rightarrow> int option" where
  "py_int s =
     (case strip s of
        c # r \<Rightarrow>
          (if c = CHR ''-'' then map_option (\<lambda>n. - int n) (dig_run 0 False r)
           else if c = CHR ''+'' then map_option int (dig_run 0 False r)
           else map_option int (dig_run 0 False (c # r)))
      | [] \<Rightarrow> None)"

text \<open>The value a run of digits adds to an accumulator.\<close>

definition digit_fold :: "nat \<Rightarrow> string \<Rightarrow> nat" where
  "digit_fold acc ds = foldl (\<lambda>a c. 10 * a + digit_val c) acc ds"

section \<open>Zero-padded decimal formatting, \<open>'%0Nd'\<close>\<close>

definition digit_char :: "nat \<Rightarrow> char" where
  "digit_char k = char_of (48 + k)"

fun digits10 :: "nat \<Rightarrow> string" where
  "digits10 n = (if n < 10 then [digit_char n] else digits10 (n div 10) @ [digit_char (n mod 10)])"

declare digits10.simps [simp del]

definition zpad :: "nat \<Rightarrow> nat \<Rightarrow> string" where
  "zpad w n = replicate (w - length (digits10 n)) CHR ''0'' @ digits10 n"

section \<open>\<open>sum\<close>, \<open>max\<close>, \<open>min\<close>, \<open>round(x, 2)\<close>\<close>

text \<open>
  \<open>sum(xs)\<close> adds from the left starting at 0; \<open>max(xs)\<close> keeps the first
  element and replaces it by a later one only when that one is strictly
  greater (\<open>min\<close> dually); on an empty list both raise \<open>ValueError\<close>.
\<close>

definition py_sum :: "real list \<Rightarrow> real" where
  "py_sum xs = foldl (+) 0 xs"

fun py_max :: "real list \<Rightarrow> real option" where
  "py_max [] = None"
| "py_max (x # xs) = Some (foldl (\<lambda>m y. if m < y then y else m) x xs)"

fun py_min :: "real list \<Rightarrow> real option" where
  "py_min [] = None"
| "py_min (x # xs) = Some (foldl (\<lambda>m y. if y < m then y else m) x xs)"

text \<open>
  \<open>round(x, 2)\<close>: the nearest multiple of \<open>1/100\<close>, ties to the even
  neighbour.
\<close>

definition round_half_even :: "real \<Rightarrow> int" where
  "round_half_even x =
     (let f = \<lfloor>x\<rfloor>; r = x - of_int f
      in if r < 1/2 then f else if 1/2 < r then f + 1 else if even f then f else f + 1)"

definition round2 :: "real \<Rightarrow> real" where
  "round2 x = of_int (round_half_even (x * 100)) / 100"

section \<open>Lemmas on \<open>split_on\<close>\<close>

lemma split_on_nonempty [simp]: "split_on c s \<noteq> []"
  by (induction s) (auto simp: Let_def)

lemma split_on_no_sep: "c \<notin> set s \<Longrightarrow> split_on c s = [s]"
  by (induction s) (auto simp: Let_def)

lemma split_on_append_sep:
  "c \<notin> set a \<Longrightarrow> split_on c (a @ c # b) = a # split_on c b"
proof (induction a)
  case Nil
  then show ?case by simp
next
  case (Cons x xs)
  then show ?case by (auto simp: Let_def)
qed

section \<open>Lemmas on the aggregates\<close>

lemma foldl_max_eq: "foldl (\<lambda>m y. if m < y then y else m) a xs = Max (set (a # (xs :: real list)))"
proof -
  have "(\<lambda>m y. if m < y then y else m) = (max :: real \<Rightarrow> real \<Rightarrow> real)" by (auto simp: fun_eq_iff)
  moreover have "(\<lambda>x s. max s x) = (max :: real \<Rightarrow> real \<Rightarrow> real)" by (auto simp: fun_eq_iff)
  ultimately show ?thesis using Max.set_eq_fold [of a xs] by (simp add: foldl_conv_fold)
qed

lemma foldl_min_eq: "foldl (\<lambda>m y. if y < m then y else m) a xs = Min (set (a # (xs :: real list)))"
proof -
  have "(\<lambda>m y. if y < m then y else m) = (min :: real \<Rightarrow> real \<Rightarrow> real)" by (auto simp: fun_eq_iff)
  moreover have "(\<lambda>x s. min s x) = (min :: real \<Rightarrow> real \<Rightarrow> real)" by (auto simp: fun_eq_iff)
  ultimately show ?thesis using Min.set_eq_fold [of a xs] by (simp add: foldl_conv_fold)
qed

theorem py_max_Max: "xs \<noteq> [] \<Longrightarrow> py_max xs = Some (Max (set xs))"
  by (cases xs) (simp_all add: foldl_max_eq)

theorem py_min_Min: "xs \<noteq> [] \<Longrightarrow> py_min xs = Some (Min (set xs))"
  by (cases xs) (simp_all add: foldl_min_eq)

lemma foldl_plus_sum_list: "foldl (+) a xs = a + sum_list (xs :: real list)"
  by (induction xs arbitrary: a) (simp_all add: algebra_simps)

lemma py_sum_sum_list: "py_sum xs = sum_list xs"
  by (simp add: py_sum_def foldl_plus_sum_list)

lemma round_half_even_bounds: "\<lfloor>x\<rfloor> \<le> round_half_even x \<and> round_half_even x \<le> \<lfloor>x\<rfloor> + 1"
  by (simp add: round_half_even_def Let_def)

lemma round_half_even_mono:
  assumes "x \<le> y" shows "round_half_even x \<le> round_half_even y"
proof (cases "\<lfloor>x\<rfloor> < \<lfloor>y\<rfloor>")
  case True
  with round_half_even_bounds [of x] round_half_even_bounds [of y] show ?thesis by linarith
next
  case False
  with assms have fl: "\<lfloor>x\<rfloor> = \<lfloor>y\<rfloor>" by (meson floor_mono not_less order.antisym)
  with assms have "x - of_int \<lfloor>x\<rfloor> \<le> y - of_int \<lfloor>y\<rfloor>" by simp
  with fl show ?thesis by (auto simp: round_half_even_def Let_def)
qed

lemma round2_mono: "x \<le> y \<Longrightarrow> round2 x \<le> round2 y"
  by (simp add: round2_def divide_right_mono round_half_even_mono)

section \<open>\<open>int()\<close> reads back \<open>'%0Nd'\<close>\<close>

lemma of_char_digit_char: "k < 10 \<Longrightarrow> (of_char (digit_char k) :: nat) = 48 + k"
  by (simp add: digit_char_def)

lemma digit_char_props:
  assumes "k < 10"
  shows "is_digit (digit_char k)" "digit_val (digit_char k) = k" "\<not> is_space (digit_char k)"
    "digit_char k \<noteq> CHR ''-''" "digit_char k \<noteq> CHR ''+''" "digit_char k \<noteq> CHR '':''"
  using assms of_char_digit_char [OF assms]
  by (auto simp: is_digit_def digit_val_def is_space_def dest: arg_cong [where f = "of_char :: char \<Rightarrow> nat"])

lemma digits10_chars: "c \<in> set (digits10 n) \<Longrightarrow> \<exists>k<10. c = digit_char k"
proof (induction n rule: digits10.induct)
  case (1 n)
  show ?case
  proof (cases "n < 10")
    case True
    with "1.prems" show ?thesis by (auto simp: digits10.simps [of n])
  next
    case False
    with "1.prems" have "c \<in> set (digits10 (n div 10)) \<or> c = digit_char (n mod 10)"
      by (auto simp: digits10.simps [of n])
    then show ?thesis
    proof
      assume "c \<in> set (digits10 (n div 10))"
      then show ?thesis by (rule "1.IH" [OF False])
    next
      assume "c = digit_char (n mod 10)"
      then show ?thesis by (intro exI [of _ "n mod 10"]) simp
    qed
  qed
qed

lemma digits10_nonempty: "digits10 n \<noteq> []"
  by (simp add: digits10.simps [of n])

lemma dig_run_digits:
  "\<forall>c\<in>set ds. is_digit c \<Longrightarrow> ds \<noteq> [] \<Longrightarrow> dig_run acc b (ds @ rest) = dig_run (digit_fold acc ds) True rest"
proof (induction ds arbitrary: acc b)
  case Nil
  then show ?case by simp
next
  case (Cons c cs)
  have "dig_run acc b ((c # cs) @ rest) = dig_run (10 * acc + digit_val c) True (cs @ rest)"
    using Cons.prems by simp
  also have "\<dots> = dig_run (digit_fold acc (c # cs)) True rest"
  proof (cases "cs = []")
    case True
    then show ?thesis by (simp add: digit_fold_def)
  next
    case False
    with Cons.prems Cons.IH [of "10 * acc + digit_val c" True] show ?thesis
      by (simp add: digit_fold_def)
  qed
  finally show ?case .
qed

lemma digit_fold_append: "digit_fold acc (xs @ ys) = digit_fold (digit_fold acc xs) ys"
  by (simp add: digit_fold_def)

lemma digit_fold_digits10: "digit_fold acc (digits10 n) = acc * 10 ^ length (digits10 n) + n"
proof (induction n arbitrary: acc rule: digits10.induct)
  case (1 n)
  show ?case
  proof (cases "n < 10")
    case True
    then show ?thesis by (simp add: digits10.simps [of n] digit_fold_def digit_char_props)
  next
    case False
    then have "digit_fold acc (digits10 n) = 10 * digit_fold acc (digits10 (n div 10)) + n mod 10"
      by (simp add: digits10.simps [of n] digit_fold_append digit_fold_def digit_char_props)
    also have "\<dots> = acc * 10 ^ Suc (length (digits10 (n div 10))) + n"
      using "1.IH" [OF False, of acc] by simp
    finally show ?thesis using False by (simp add: digits10.simps [of n])
  qed
qed

lemma digit_fold_zeros: "digit_fold acc (replicate k CHR ''0'') = acc * 10 ^ k"
proof -
  have "digit_val CHR ''0'' = 0" by (simp add: digit_val_def)
  then show ?thesis by (induction k arbitrary: acc) (simp_all add: digit_fold_def)
qed

lemma zpad_chars: "c \<in> set (zpad w n) \<Longrightarrow> \<exists>k<10. c = digit_char k"
proof -
  assume c: "c \<in> set (zpad w n)"
  have z: "digit_char 0 = CHR ''0''" by (simp add: digit_char_def char_of_eq_iff)
  from c have "c = CHR ''0'' \<or> c \<in> set (digits10 n)"
    by (auto simp: zpad_def split: if_splits)
  then show ?thesis
  proof
    assume "c = CHR ''0''"
    with z show ?thesis by (intro exI [of _ 0]) simp
  qed (rule digits10_chars)
qed

lemma dig_run_zpad: "dig_run 0 b (zpad w n) = Some n"
proof -
  have "\<forall>c\<in>set (zpad w n). is_digit c" using zpad_chars digit_char_props(1) by blast
  moreover have "zpad w n \<noteq> []" by (simp add: zpad_def digits10_nonempty)
  ultimately have "dig_run 0 b (zpad w n @ []) = dig_run (digit_fold 0 (zpad w n)) True []"
    by (rule dig_run_digits)
  then show ?thesis by (simp add: zpad_def digit_fold_append digit_fold_zeros digit_fold_digits10)
qed

lemma dropWhile_none: "(\<forall>c\<in>set s. \<not> P c) \<Longrightarrow> dropWhile P s = s"
  by (cases s) auto

lemma strip_no_space: "(\<forall>c\<in>set s. \<not> is_space c) \<Longrightarrow> strip s = s"
  by (simp add: strip_def dropWhile_none)

lemma py_int_zpad_aux: "py_int (zpad w n) = Some (int n)"
proof -
  have ns: "\<forall>c\<in>set (zpad w n). \<not> is_space c" using zpad_chars digit_char_props(3) by blast
  obtain c r where cr: "zpad w n = c # r" by (cases "zpad w n") (auto simp: zpad_def digits10_nonempty)
  then obtain k where "k < 10" "c = digit_char k" using zpad_chars by (metis list.set_intros(1))
  then have "c \<noteq> CHR ''-''" "c \<noteq> CHR ''+''" using digit_char_props by auto
  with cr ns dig_run_zpad [of False w n] show ?thesis
    by (simp add: py_int_def strip_no_space)
qed

lemma dash_notin_zpad: "CHR ''-'' \<notin> set (zpad w n)"
proof
  assume "CHR ''-'' \<in> set (zpad w n)"
  then obtain k where "k < 10" "CHR ''-'' = digit_char k" using zpad_chars by blast
  then show False using digit_char_props(4) by metis
qed

subsection \<open>Zero-padded numbers in lexicographic order\<close>

lemma digit_char_zero: "digit_char 0 = CHR ''0''"
  by (simp add: digit_char_def char_of_eq_iff)

lemma zpad_Suc:
  assumes "1 \<le> w" "n < 10 ^ Suc w"
  shows "zpad (Suc w) n = zpad w (n div 10) @ [digit_char (n mod 10)]"
proof (cases "n < 10")
  case True
  then have "n div 10 = 0" "n mod 10 = n" by auto
  moreover have "zpad w 0 = replicate w CHR ''0''"
    using assms(1) by (cases w) (simp_all add: zpad_def digits10.simps [of 0] digit_char_zero replicate_append_same)
  ultimately show ?thesis using True
    by (simp add: zpad_def digits10.simps [of n] replicate_append_same)
next
  case False
  then have d: "digits10 n = digits10 (n div 10) @ [digit_char (n mod 10)]"
    by (simp add: digits10.simps [of n])
  show ?thesis by (simp add: zpad_def d)
qed

lemma digit_char_less: "k < 10 \<Longrightarrow> j < 10 \<Longrightarrow> digit_char k < digit_char j \<longleftrightarrow> k < j"
  by (simp add: less_char_def of_char_digit_char)

lemma list_less_append_eqlen:
  "length xs = length ys \<Longrightarrow> (xs @ us < ys @ vs) \<longleftrightarrow> xs < ys \<or> xs = ys \<and> us < vs"
proof (induction xs arbitrary: ys)
  case Nil
  then show ?case by simp
next
  case (Cons x xs)
  then obtain y ys' where "ys = y # ys'" by (cases ys) auto
  with Cons show ?case by (auto simp: Cons_less_Cons)
qed

lemma zpad_length: "1 \<le> w \<Longrightarrow> n < 10 ^ w \<Longrightarrow> length (zpad w n) = w"
proof (induction w arbitrary: n rule: nat_induct_at_least)
  case base
  then show ?case by (simp add: zpad_def digits10.simps [of n])
next
  case (Suc w)
  then have "n div 10 < 10 ^ w" by (simp add: less_mult_imp_div_less mult.commute)
  with Suc show ?case by (simp add: zpad_Suc)
qed

lemma less_by_digits:
  fixes n m :: nat
  shows "n < m \<longleftrightarrow> n div 10 < m div 10 \<or> n div 10 = m div 10 \<and> n mod 10 < m mod 10"
proof -
  have n: "n = 10 * (n div 10) + n mod 10" and m: "m = 10 * (m div 10) + m mod 10" by simp_all
  have "n mod 10 < 10" "m mod 10 < 10" by simp_all
  with n m show ?thesis by linarith
qed

lemma zpad_inj:
  assumes h: "zpad w n = zpad w m"
  shows "n = m"
proof -
  have "py_int (zpad w m) = Some (int n)" using py_int_zpad_aux [of w n, unfolded h] .
  then show ?thesis using py_int_zpad_aux [of w m] by simp
qed

lemma singleton_less: "[a] < [b] \<longleftrightarrow> (a :: 'a :: order) < b"
  by (simp add: Cons_less_Cons)

lemma zpad_less:
  "1 \<le> w \<Longrightarrow> n < 10 ^ w \<Longrightarrow> m < 10 ^ w \<Longrightarrow> zpad w n < zpad w m \<longleftrightarrow> n < m"
proof (induction w arbitrary: n m rule: nat_induct_at_least)
  case base
  then show ?case by (simp add: zpad_def digits10.simps [of n] digits10.simps [of m] singleton_less digit_char_less)
next
  case (Suc w)
  then have "n div 10 < 10 ^ w" "m div 10 < 10 ^ w" by (simp_all add: less_mult_imp_div_less mult.commute)
  with Suc show ?case
    by (auto simp: zpad_Suc list_less_append_eqlen zpad_length singleton_less digit_char_less
        less_by_digits [of n m] dest: zpad_inj)
qed

end
