(* ===== verification/Dates.thy ===== *)
theory Dates
  imports PyLib
begin

text \<open>
  Python's \<open>datetime.date\<close> as the application uses it: the stored
  \<open>Activity.date\<close>, the comparison in the range filters of \<open>get_events\<close> and
  \<open>calculate_statistics\<close>, \<open>date.replace\<close> in the period computation,
  \<open>isoformat()\<close> in \<open>get_events\<close> and \<open>strftime('%d.%m.%Y')\<close> in the statistics
  details.
\<close>

section \<open>Dates and their order\<close>

datatype date = Date (year: nat) (month: nat) (day: nat)

definition is_leap :: "nat \<Rightarrow> bool" where
  "is_leap y \<longleftrightarrow> (4 dvd y \<and> \<not> 100 dvd y) \<or> 400 dvd y"

definition days_in_month :: "nat \<Rightarrow> nat \<Rightarrow> nat" where
  "days_in_month y m =
     (if m = 2 then (if is_leap y then 29 else 28)
      else if m = 4 \<or> m = 6 \<or> m = 9 \<or> m = 11 then 30 else 31)"

text \<open>\<open>date(y, m, d)\<close> accepts \<open>MINYEAR = 1 \<le> y \<le> 9999 = MAXYEAR\<close>.\<close>

definition valid_date :: "date \<Rightarrow> bool" where
  "valid_date d \<longleftrightarrow>
     1 \<le> year d \<and> year d \<le> 9999 \<and> 1 \<le> month d \<and> month d \<le> 12 \<and>
     1 \<le> day d \<and> day d \<le> days_in_month (year d) (month d)"

text \<open>Python compares dates by year, then month, then day.\<close>

instantiation date :: linorder
begin

definition less_eq_date :: "date \<Rightarrow> date \<Rightarrow> bool" where
  "less_eq_date a b \<longleftrightarrow>
     year a < year b \<or> year a = year b \<and> (month a < month b \<or> month a = month b \<and> day a \<le> day b)"

definition less_date :: "date \<Rightarrow> date \<Rightarrow> bool" where
  "less_date a b \<longleftrightarrow> a \<le> b \<and> \<not> b \<le> a"

instance
proof
  fix a b c :: date
  show "a < b \<longleftrightarrow> a \<le> b \<and> \<not> b \<le> a" by (simp add: less_date_def)
  show "a \<le> a" by (simp add: less_eq_date_def)
  show "a \<le> b \<Longrightarrow> b \<le> c \<Longrightarrow> a \<le> c" by (auto simp: less_eq_date_def)
  show "a \<le> b \<Longrightarrow> b \<le> a \<Longrightarrow> a = b" by (cases a; cases b) (auto simp: less_eq_date_def)
  show "a \<le> b \<or> b \<le> a" by (auto simp: less_eq_date_def)
qed

end

section \<open>\<open>date.replace\<close>\<close>

text \<open>\<open>d.replace(day=n)\<close> and \<open>d.replace(month=m, day=n)\<close>: \<open>ValueError\<close> (\<open>None\<close>) when the result is no date.\<close>

definition replace_day :: "date \<Rightarrow> nat \<Rightarrow> date option" where
  "replace_day d n = (let r = Date (year d) (month d) n in if valid_date r then Some r else None)"

definition replace_month_day :: "date \<Rightarrow> nat \<Rightarrow> nat \<Rightarrow> date option" where
  "replace_month_day d m n = (let r = Date (year d) m n in if valid_date r then Some r else None)"

section \<open>The date parser\<close>

text \<open>
  \<open>dateutil.parser.parse(s).date()\<close> is a library the handlers call: it is a
  parameter of every handler that parses a date, \<open>None\<close> when it raises.
\<close>

type_synonym date_parser = "string \<Rightarrow> date option"

section \<open>Printing dates\<close>

text \<open>\<open>d.isoformat()\<close> is \<open>'%04d-%02d-%02d'\<close>. \<open>d.strftime('%d.%m.%Y')\<close> prints day
  and month with two digits and the year as the C library's \<open>%Y\<close> does: with glibc
  (the platform CPython runs this application on) the year in decimal without padding,
  so the year 987 prints as \<open>987\<close>. Other C libraries and newer CPython releases pad
  \<open>%Y\<close> to four digits; the two agree for the years 1000 to 9999.\<close>

definition isoformat :: "date \<Rightarrow> string" where
  "isoformat d = zpad 4 (year d) @ CHR ''-'' # zpad 2 (month d) @ CHR ''-'' # zpad 2 (day d)"

definition strftime_dmy :: "date \<Rightarrow> string" where
  "strftime_dmy d = zpad 2 (day d) @ CHR ''.'' # zpad 2 (month d) @ CHR ''.'' # digits10 (year d)"

text \<open>
  A strict reader of \<open>YYYY-MM-DD\<close>: three \<open>int()\<close> fields separated by
  \<open>'-'\<close>. It is what \<open>dateutil\<close> does on the ISO dates \<open>get_events\<close>
  prints, and serves as an instance of the parser parameter.
\<close>

definition iso_parse :: date_parser where
  "iso_parse s =
     (case split_on CHR ''-'' s of
        [y, m, d] \<Rightarrow>
          (case (py_int y, py_int m, py_int d) of
             (Some a, Some b, Some c) \<Rightarrow>
               if 0 \<le> a \<and> 0 \<le> b \<and> 0 \<le> c then Some (Date (nat a) (nat b) (nat c)) else None
           | _ \<Rightarrow> None)
      | _ \<Rightarrow> None)"

section \<open>Lemmas\<close>

lemma dates_between_same_month:
  assumes "valid_date (Date y m b)" "1 \<le> a" "a \<le> b"
  shows "{x. valid_date x \<and> Date y m a \<le> x \<and> x \<le> Date y m b} = (\<lambda>k. Date y m k) ` {a..b}"
proof
  show "{x. valid_date x \<and> Date y m a \<le> x \<and> x \<le> Date y m b} \<subseteq> (\<lambda>k. Date y m k) ` {a..b}"
  proof
    fix x assume "x \<in> {x. valid_date x \<and> Date y m a \<le> x \<and> x \<le> Date y m b}"
    then have "Date y m a \<le> x" "x \<le> Date y m b" by auto
    then have "year x = y" "month x = m" "a \<le> day x" "day x \<le> b"
      by (auto simp: less_eq_date_def)
    then show "x \<in> (\<lambda>k. Date y m k) ` {a..b}"
      by (metis atLeastAtMost_iff date.collapse image_eqI)
  qed
next
  show "(\<lambda>k. Date y m k) ` {a..b} \<subseteq> {x. valid_date x \<and> Date y m a \<le> x \<and> x \<le> Date y m b}"
    using assms by (auto simp: valid_date_def less_eq_date_def)
qed

lemma card_dates_between_same_month:
  assumes "valid_date (Date y m b)" "1 \<le> a" "a \<le> b"
  shows "card {x. valid_date x \<and> Date y m a \<le> x \<and> x \<le> Date y m b} = Suc b - a"
proof -
  have "inj_on (\<lambda>k. Date y m k) {a..b}" by (auto simp: inj_on_def)
  then show ?thesis by (simp add: dates_between_same_month [OF assms] card_image)
qed

lemma split_isoformat:
  "split_on CHR ''-'' (isoformat d) = [zpad 4 (year d), zpad 2 (month d), zpad 2 (day d)]"
  by (simp add: isoformat_def split_on_append_sep split_on_no_sep dash_notin_zpad)

lemma iso_parse_isoformat: "iso_parse (isoformat d) = Some d"
  by (simp add: iso_parse_def split_isoformat py_int_zpad_aux)

lemma isoformat_inj: "inj isoformat"
  by (rule inj_on_inverseI [where g = "the \<circ> iso_parse"]) (simp add: iso_parse_isoformat)

lemma isoformat_nonempty: "isoformat d \<noteq> []"
  by (simp add: isoformat_def)

lemma replace_day_first: "valid_date d \<Longrightarrow> replace_day d 1 = Some (Date (year d) (month d) 1)"
  by (auto simp: replace_day_def valid_date_def days_in_month_def Let_def)

lemma replace_month_day_jan1: "valid_date d \<Longrightarrow> replace_month_day d 1 1 = Some (Date (year d) 1 1)"
  by (auto simp: replace_month_day_def valid_date_def days_in_month_def Let_def)

lemma valid_date_bounds: "valid_date d \<Longrightarrow> year d < 10 ^ 4 \<and> month d < 10 ^ 2 \<and> day d < 10 ^ 2"
  by (auto simp: valid_date_def days_in_month_def split: if_splits)

lemma date_less_iff:
  "a < b \<longleftrightarrow> year a < year b \<or> year a = year b \<and> (month a < month b \<or> month a = month b \<and> day a < day b)"
  by (auto simp: less_date_def less_eq_date_def)

lemma dash_less: "CHR ''-'' # xs < CHR ''-'' # ys \<longleftrightarrow> xs < ys"
  by (simp add: Cons_less_Cons)

lemma isoformat_less:
  assumes "valid_date a" "valid_date b"
  shows "isoformat a < isoformat b \<longleftrightarrow> a < b"
  using valid_date_bounds [OF assms(1)] valid_date_bounds [OF assms(2)]
  by (auto simp: isoformat_def list_less_append_eqlen zpad_length dash_less zpad_less date_less_iff
      dest: zpad_inj)

lemma isoformat_le:
  assumes "valid_date a" "valid_date b"
  shows "isoformat a \<le> isoformat b \<longleftrightarrow> a \<le> b"
  using isoformat_less [OF assms] isoformat_inj by (auto simp: list_le_def le_less inj_eq)

end
