(* ===== verification/Store.thy ===== *)
theory Store
  imports Dates
begin

text \<open>
  The relational store of \<open>src/app.py\<close> (lines 15--38): the three
  SQLAlchemy models \<open>User\<close>, \<open>Activity\<close> and \<open>Feedback\<close> as records, the
  database as one list per table in rowid order (the order in which SQLite
  returns the rows of an unordered query), SQLite's rowid allocation, the
  queries the handlers issue, the responses they return, and the invariant the
  handlers keep.
\<close>

section \<open>Rows and tables\<close>

record user =
  uid :: uid
  username :: string
  password :: string

record activity =
  act_id :: aid
  act_date :: date
  start_time :: string
  end_time :: string
  act_notes :: string
  salary :: real
  user_id :: uid

record feedback =
  fb_id :: fid
  subject :: string
  fb_name :: string
  message :: string
  timestamp :: timestamp

record db =
  users :: "user list"
  activities :: "activity list"
  feedbacks :: "feedback list"

definition empty_db :: db where
  "empty_db = \<lparr>users = [], activities = [], feedbacks = []\<rparr>"

section \<open>Rowid allocation\<close>

text \<open>
  An \<open>INTEGER PRIMARY KEY\<close> without \<open>AUTOINCREMENT\<close>: a new row gets one more
  than the largest rowid in the table, or 1 in an empty table. Rowids of
  deleted rows can therefore come back.
\<close>

definition next_rowid :: "nat list \<Rightarrow> nat" where
  "next_rowid ids = Suc (foldr max ids 0)"

section \<open>Queries\<close>

text \<open>
  \<open>User.query.filter_by(username=n).first()\<close>,
  \<open>User.query.filter_by(username=n, password=p).first()\<close> and
  \<open>User.query.get(i)\<close>.
\<close>

definition find_user_by_name :: "string \<Rightarrow> user list \<Rightarrow> user option" where
  "find_user_by_name n us = find (\<lambda>x. username x = n) us"

definition find_user_cred :: "string \<Rightarrow> string \<Rightarrow> user list \<Rightarrow> user option" where
  "find_user_cred n p us = find (\<lambda>x. username x = n \<and> password x = p) us"

definition get_user :: "uid \<Rightarrow> user list \<Rightarrow> user option" where
  "get_user i us = find (\<lambda>x. uid x = i) us"

text \<open>\<open>Activity.query.filter_by(user_id=u, date=d).first()\<close>\<close>

definition find_activity :: "uid \<Rightarrow> date \<Rightarrow> activity list \<Rightarrow> activity option" where
  "find_activity u d acts = find (\<lambda>a. user_id a = u \<and> act_date a = d) acts"

text \<open>\<open>Activity.query.get(i)\<close>\<close>

definition get_activity :: "aid \<Rightarrow> activity list \<Rightarrow> activity option" where
  "get_activity i acts = find (\<lambda>a. act_id a = i) acts"

text \<open>
  \<open>Activity.query.filter(Activity.user_id == u, Activity.date >= s,
  Activity.date <= e).all()\<close>, and the same without the date bounds.
\<close>

definition user_activities :: "uid \<Rightarrow> activity list \<Rightarrow> activity list" where
  "user_activities u acts = filter (\<lambda>a. user_id a = u) acts"

definition activities_in_range :: "uid \<Rightarrow> date \<Rightarrow> date \<Rightarrow> activity list \<Rightarrow> activity list" where
  "activities_in_range u s e acts = filter (\<lambda>a. user_id a = u \<and> s \<le> act_date a \<and> act_date a \<le> e) acts"

text \<open>
  The same filter as SQLite evaluates it: SQLAlchemy stores a \<open>Date\<close> as the
  text \<open>YYYY-MM-DD\<close> and binds the bounds the same way, so \<open>>=\<close> and
  \<open><=\<close> compare strings character by character.
\<close>

definition activities_in_range_sql :: "uid \<Rightarrow> date \<Rightarrow> date \<Rightarrow> activity list \<Rightarrow> activity list" where
  "activities_in_range_sql u s e acts =
     filter (\<lambda>a. user_id a = u \<and> isoformat s \<le> isoformat (act_date a) \<and> isoformat (act_date a) \<le> isoformat e) acts"

section \<open>Responses\<close>

text \<open>
  The response payloads: an event summary of \<open>get_events\<close>, the event detail
  of \<open>get_event\<close>, the statistics object of \<open>calculate_statistics\<close>.
\<close>

record event_summary =
  title :: string
  start :: string
  ev_id :: aid

record event_detail =
  det_start :: string
  det_end :: string
  det_notes :: string
  det_salary :: real
  det_id :: aid

record stat_detail =
  sd_date :: string
  sd_duration :: real
  sd_salary :: real

record stats =
  total_hours :: real
  total_salary :: real
  max_hours :: real
  min_hours :: real
  max_salary :: real
  min_salary :: real
  details :: "stat_detail list"

text \<open>
  The fixed messages of the handlers. The Ukrainian texts of
  \<open>submit_feedback\<close> and \<open>calculate_statistics\<close> are named, not spelled.
\<close>

datatype msg =
    UserAlreadyExists       \<comment> \<open>\<open>'User already exists'\<close>\<close>
  | InvalidCredentials      \<comment> \<open>\<open>'Invalid credentials'\<close>\<close>
  | Unauthorized            \<comment> \<open>\<open>{'error': 'Unauthorized'}\<close>\<close>
  | NotFound                \<comment> \<open>\<open>{'error': 'Not found'}\<close>\<close>
  | FillAllFields           \<comment> \<open>"please fill in all fields"\<close>
  | FeedbackSaveFailed      \<comment> \<open>"error while saving the feedback"\<close>
  | UnknownPeriod           \<comment> \<open>"unknown period"\<close>

datatype endpoint = EP_index | EP_login | EP_dashboard

datatype template = T_register | T_login

datatype response =
    Redirect endpoint                  \<comment> \<open>\<open>redirect(url_for(...))\<close>\<close>
  | Form template                      \<comment> \<open>\<open>render_template\<close> of a form\<close>
  | IndexPage "feedback list"          \<comment> \<open>\<open>index.html\<close> with the feedback list\<close>
  | CalendarPage string                \<comment> \<open>\<open>calendar.html\<close> with the user name\<close>
  | Text msg nat                       \<comment> \<open>a plain-text body and its status\<close>
  | JsonEvents "event_summary list"
  | JsonEvent "event_detail option"    \<comment> \<open>\<open>None\<close> is \<open>{}\<close>\<close>
  | JsonSuccess                        \<comment> \<open>\<open>{'success': True}\<close>\<close>
  | JsonError msg nat                  \<comment> \<open>\<open>{'error': ...}\<close> and its status\<close>
  | JsonStats stats
  | JsonException                      \<comment> \<open>\<open>{'error': str(e)}, 500\<close>\<close>
  | HttpError nat                      \<comment> \<open>an exception the handler does not catch\<close>

text \<open>
  How Flask turns a handler's return value into an HTTP answer: \<open>jsonify\<close>
  gives a JSON body, a returned string or template a 200 HTML page,
  \<open>redirect\<close> a 302, a tuple \<open>(body, n)\<close> the status \<open>n\<close>, and an uncaught
  exception its error status.
\<close>

fun json_response :: "response \<Rightarrow> bool" where
  "json_response (JsonEvents _) = True"
| "json_response (JsonEvent _) = True"
| "json_response JsonSuccess = True"
| "json_response (JsonError _ _) = True"
| "json_response (JsonStats _) = True"
| "json_response JsonException = True"
| "json_response _ = False"

fun status :: "response \<Rightarrow> nat" where
  "status (Redirect _) = 302"
| "status (Text _ n) = n"
| "status (JsonError _ n) = n"
| "status JsonException = 500"
| "status (HttpError n) = n"
| "status _ = 200"

text \<open>An error page of Flask itself rather than an answer of the handler.\<close>

fun flask_error :: "response \<Rightarrow> bool" where
  "flask_error (HttpError _) = True"
| "flask_error _ = False"

section \<open>The database invariant\<close>

text \<open>
  What every handler keeps: each table is in strictly increasing rowid order,
  user names are unique, and a user has at most one activity per date (the
  application-level uniqueness of \<open>save_event\<close>).
\<close>

definition db_inv :: "db \<Rightarrow> bool" where
  "db_inv s \<longleftrightarrow>
     sorted_wrt (<) (map uid (users s)) \<and>
     sorted_wrt (<) (map act_id (activities s)) \<and>
     sorted_wrt (<) (map fb_id (feedbacks s)) \<and>
     distinct (map username (users s)) \<and>
     distinct (map (\<lambda>a. (user_id a, act_date a)) (activities s))"

section \<open>Lemmas on rowids and queries\<close>

lemma next_rowid_gt: "i \<in> set ids \<Longrightarrow> i < next_rowid ids"
  unfolding next_rowid_def using foldr_max_ge by (simp add: le_imp_less_Suc)

lemma next_rowid_notin: "next_rowid ids \<notin> set ids"
  using next_rowid_gt by blast

lemma sorted_append_next_rowid [intro]:
  "sorted_wrt (<) ids \<Longrightarrow> sorted_wrt (<) (ids @ [next_rowid ids])"
  by (simp add: sorted_wrt_less_append_single next_rowid_gt)

lemma find_activity_Some:
  "find_activity u d acts = Some a \<Longrightarrow> a \<in> set acts \<and> user_id a = u \<and> act_date a = d"
  unfolding find_activity_def by (drule find_Some_mem) simp

lemma find_activity_None:
  "find_activity u d acts = None \<longleftrightarrow> (\<forall>a\<in>set acts. user_id a \<noteq> u \<or> act_date a \<noteq> d)"
  unfolding find_activity_def by (auto simp: find_None_iff_all)

lemma find_activity_unique:
  assumes "distinct (map (\<lambda>a. (user_id a, act_date a)) acts)" "a \<in> set acts"
  shows "find_activity (user_id a) (act_date a) acts = Some a"
  unfolding find_activity_def
  by (rule find_unique [OF assms]) (simp add: fun_eq_iff)

lemma get_activity_Some:
  "get_activity i acts = Some a \<Longrightarrow> a \<in> set acts \<and> act_id a = i"
  unfolding get_activity_def by (drule find_Some_mem) simp

lemma get_activity_None:
  "get_activity i acts = None \<longleftrightarrow> i \<notin> act_id ` set acts"
  unfolding get_activity_def by (auto simp: find_None_iff_all)

lemma act_id_inj:
  "sorted_wrt (<) (map act_id acts) \<Longrightarrow> a \<in> set acts \<Longrightarrow> b \<in> set acts \<Longrightarrow>
   act_id a = act_id b \<Longrightarrow> a = b"
  by (auto simp: strict_sorted_iff intro: distinct_map_eqD)

lemma find_user_cred_mem: "find_user_cred n p us = Some x \<Longrightarrow> x \<in> set us"
  unfolding find_user_cred_def by (drule find_Some_mem) simp

lemma get_user_mem: "x \<in> set us \<Longrightarrow> \<exists>y. get_user (uid x) us = Some y"
  unfolding get_user_def by (cases "find (\<lambda>y. uid y = uid x) us") (auto simp: find_None_iff_all)

lemma get_user_Some: "get_user i us = Some y \<Longrightarrow> y \<in> set us \<and> uid y = i"
  unfolding get_user_def by (drule find_Some_mem) simp

lemma get_activity_last:
  "i \<notin> set (map act_id xs) \<Longrightarrow> get_activity i (xs @ [a]) = (if act_id a = i then Some a else None)"
proof -
  assume "i \<notin> set (map act_id xs)"
  then have "find (\<lambda>b. act_id b = i) xs = None" by (auto simp: find_None_iff_all)
  then show ?thesis by (simp add: get_activity_def find_append_list)
qed

text \<open>
  C17. On valid dates the query that SQLite runs, comparing ISO strings, selects
  exactly the activities that the date order selects, so modelling the range
  filters of \<open>get_events\<close> and \<open>calculate_statistics\<close> by date comparison is
  faithful.
\<close>

theorem activities_in_range_sql_eq:
  assumes "\<forall>a\<in>set acts. valid_date (act_date a)" "valid_date s" "valid_date e"
  shows "activities_in_range_sql u s e acts = activities_in_range u s e acts"
  unfolding activities_in_range_sql_def activities_in_range_def
  using assms by (auto simp: isoformat_le intro!: filter_cong)

theorem activities_in_range_sql_eq_witness:
  "activities_in_range_sql 1 (Date 2024 1 1) (Date 2024 1 31)
     [\<lparr>act_id = 1, act_date = Date 2024 1 5, start_time = ''08:00'', end_time = ''16:00'',
       act_notes = [], salary = 100, user_id = 1\<rparr>] =
   activities_in_range 1 (Date 2024 1 1) (Date 2024 1 31)
     [\<lparr>act_id = 1, act_date = Date 2024 1 5, start_time = ''08:00'', end_time = ''16:00'',
       act_notes = [], salary = 100, user_id = 1\<rparr>]"
proof -
  have h1: "\<forall>a\<in>set [\<lparr>act_id = 1, act_date = Date 2024 1 5, start_time = ''08:00'', end_time = ''16:00'',
       act_notes = [], salary = 100, user_id = 1\<rparr>]. valid_date (act_date a)"
    by (simp add: valid_date_def days_in_month_def)
  have h2: "valid_date (Date 2024 1 1)" by (simp add: valid_date_def days_in_month_def)
  have h3: "valid_date (Date 2024 1 31)" by (simp add: valid_date_def days_in_month_def)
  from activities_in_range_sql_eq [OF h1 h2 h3] show ?thesis .
qed

end
