(* ===== verification/Activities.thy ===== *)
theory Activities
  imports Store
begin

text \<open>
  The activity handlers of \<open>src/app.py\<close>: \<open>get_events\<close> (lines 78--103),
  \<open>get_event\<close> (105--123), \<open>save_event\<close> (125--154, with
  \<open>save_event_request\<close> for the reading of the body before its \<open>try\<close>) and
  \<open>delete_event\<close> (156--165). Each takes the client's session and the request data; the
  writing handlers return the response and the new database. An exception
  caught by the handler's \<open>except\<close> is the response \<open>JsonException\<close>, and the
  database is left as it was: Flask-SQLAlchemy discards a session that was
  not committed when the request ends. The abstract view of the activity
  table is \<open>calendar\<close>: for each user, a partial map from dates to entries.
\<close>

section \<open>Request data\<close>

text \<open>
  The JSON body of \<open>POST /event\<close>; a key missing from the body is \<open>None\<close>
  (\<open>data['start']\<close> then raises \<open>KeyError\<close>).
\<close>

record event_req =
  rq_date :: "string option"
  rq_start :: "string option"
  rq_end :: "string option"
  rq_notes :: "string option"
  rq_salary :: "real option"

text \<open>
  How reading \<open>request.json\<close> can fail in Flask: a body whose content type
  is not JSON raises \<open>UnsupportedMediaType\<close> (415), malformed JSON raises
  \<open>BadRequest\<close> (400).
\<close>

datatype json_failure = NotJsonContent | MalformedJson

fun json_failure_status :: "json_failure \<Rightarrow> nat" where
  "json_failure_status NotJsonContent = 415"
| "json_failure_status MalformedJson = 400"

text \<open>
  \<open>if start and end:\<close> of \<open>get_events\<close>: both query arguments present and
  non-empty.
\<close>

fun range_args :: "string option \<Rightarrow> string option \<Rightarrow> (string \<times> string) option" where
  "range_args (Some a) (Some b) = (if a \<noteq> [] \<and> b \<noteq> [] then Some (a, b) else None)"
| "range_args _ _ = None"

section \<open>Handlers\<close>

definition event_summary_of :: "activity \<Rightarrow> event_summary" where
  "event_summary_of a = \<lparr>title = ''work'', start = isoformat (act_date a), ev_id = act_id a\<rparr>"

definition get_events ::
  "date_parser \<Rightarrow> sess \<Rightarrow> string option \<Rightarrow> string option \<Rightarrow> db \<Rightarrow> response" where
  "get_events pd s st en db =
     (case s of
        None \<Rightarrow> JsonEvents []
      | Some u \<Rightarrow>
          (case range_args st en of
             None \<Rightarrow> JsonEvents (map event_summary_of (user_activities u (activities db)))
           | Some (a, b) \<Rightarrow>
               (case pd a of
                  None \<Rightarrow> JsonException
                | Some sd \<Rightarrow>
                    (case pd b of
                       None \<Rightarrow> JsonException
                     | Some ed \<Rightarrow>
                         JsonEvents (map event_summary_of
                           (activities_in_range u sd ed (activities db)))))))"

definition event_detail_of :: "activity \<Rightarrow> event_detail" where
  "event_detail_of a =
     \<lparr>det_start = start_time a, det_end = end_time a, det_notes = act_notes a,
      det_salary = salary a, det_id = act_id a\<rparr>"

definition get_event :: "date_parser \<Rightarrow> sess \<Rightarrow> string \<Rightarrow> db \<Rightarrow> response" where
  "get_event pd s ds db =
     (case s of
        None \<Rightarrow> JsonError Unauthorized 401
      | Some u \<Rightarrow>
          (case pd ds of
             None \<Rightarrow> JsonException
           | Some d \<Rightarrow> JsonEvent (map_option event_detail_of (find_activity u d (activities db)))))"

text \<open>
  \<open>db.session.add(Activity(...))\<close>: the new row gets the next rowid and is
  the last row of the table.
\<close>

definition insert_activity ::
  "date \<Rightarrow> string \<Rightarrow> string \<Rightarrow> string \<Rightarrow> real \<Rightarrow> uid \<Rightarrow> activity list \<Rightarrow> activity list" where
  "insert_activity d st en no sa u acts =
     acts @ [\<lparr>act_id = next_rowid (map act_id acts), act_date = d, start_time = st,
              end_time = en, act_notes = no, salary = sa, user_id = u\<rparr>]"

text \<open>
  The four assignments to \<open>existing\<close>, flushed as an \<open>UPDATE\<close> of the row
  with that id.
\<close>

definition overwrite_activity ::
  "aid \<Rightarrow> string \<Rightarrow> string \<Rightarrow> string \<Rightarrow> real \<Rightarrow> activity list \<Rightarrow> activity list" where
  "overwrite_activity i st en no sa acts =
     map (\<lambda>a. if act_id a = i
               then a\<lparr>start_time := st, end_time := en, act_notes := no, salary := sa\<rparr>
               else a) acts"

definition save_event :: "date_parser \<Rightarrow> sess \<Rightarrow> event_req \<Rightarrow> db \<Rightarrow> response \<times> db" where
  "save_event pd s rq db =
     (case s of
        None \<Rightarrow> (JsonError Unauthorized 401, db)
      | Some u \<Rightarrow>
          (case rq_date rq of
             None \<Rightarrow> (JsonException, db)
           | Some ds \<Rightarrow>
               (case pd ds of
                  None \<Rightarrow> (JsonException, db)
                | Some d \<Rightarrow>
                    (case (rq_start rq, rq_end rq, rq_notes rq, rq_salary rq) of
                       (Some st, Some en, Some no, Some sa) \<Rightarrow>
                         (case find_activity u d (activities db) of
                            None \<Rightarrow>
                              (JsonSuccess,
                               db\<lparr>activities := insert_activity d st en no sa u (activities db)\<rparr>)
                          | Some ex \<Rightarrow>
                              (JsonSuccess,
                               db\<lparr>activities := overwrite_activity (act_id ex) st en no sa (activities db)\<rparr>))
                     | _ \<Rightarrow> (JsonException, db)))))"

text \<open>
  \<open>POST /event\<close> as a whole: \<open>data = request.json\<close> (line 129) runs after
  the session check and before the \<open>try\<close>, so a body that cannot be read as
  JSON is answered with Flask's error status; a body that is read goes to the
  \<open>try\<close> block, \<open>save_event\<close>, which begins with the same session check.
\<close>

definition save_event_request ::
  "date_parser \<Rightarrow> sess \<Rightarrow> json_failure + event_req \<Rightarrow> db \<Rightarrow> response \<times> db" where
  "save_event_request pd s body db =
     (case body of
        Inr rq \<Rightarrow> save_event pd s rq db
      | Inl f \<Rightarrow>
          (case s of
             None \<Rightarrow> (JsonError Unauthorized 401, db)
           | Some _ \<Rightarrow> (HttpError (json_failure_status f), db)))"

definition delete_event :: "sess \<Rightarrow> aid \<Rightarrow> db \<Rightarrow> response \<times> db" where
  "delete_event s i db =
     (case s of
        None \<Rightarrow> (JsonError Unauthorized 401, db)
      | Some u \<Rightarrow>
          (case get_activity i (activities db) of
             Some a \<Rightarrow>
               (if user_id a = u
                then (JsonSuccess, db\<lparr>activities := filter (\<lambda>b. act_id b \<noteq> i) (activities db)\<rparr>)
                else (JsonError NotFound 404, db))
           | None \<Rightarrow> (JsonError NotFound 404, db)))"

declare get_events_def [handler_defs] get_event_def [handler_defs]
  save_event_def [handler_defs] save_event_request_def [handler_defs] delete_event_def [handler_defs]

text \<open>A request body that carries every key.\<close>

abbreviation full_event_req :: "string \<Rightarrow> string \<Rightarrow> string \<Rightarrow> string \<Rightarrow> real \<Rightarrow> event_req" where
  "full_event_req ds st en no sa \<equiv>
     \<lparr>rq_date = Some ds, rq_start = Some st, rq_end = Some en, rq_notes = Some no, rq_salary = Some sa\<rparr>"

text \<open>A row used in the examples below.\<close>

definition sample_activity :: activity where
  "sample_activity =
     \<lparr>act_id = 1, act_date = Date 2024 1 1, start_time = ''08:00'', end_time = ''16:00'',
      act_notes = [], salary = 100, user_id = 1\<rparr>"

section \<open>The abstract calendar\<close>

text \<open>
  What the activity table means to a user: a partial map from dates to the
  entry \<open>(start, end, notes, salary)\<close> stored for that date.
\<close>

type_synonym entry = "string \<times> string \<times> string \<times> real"

definition entry_of :: "activity \<Rightarrow> entry" where
  "entry_of a = (start_time a, end_time a, act_notes a, salary a)"

definition calendar :: "db \<Rightarrow> uid \<Rightarrow> date \<Rightarrow> entry option" where
  "calendar db u d = map_option entry_of (find_activity u d (activities db))"

section \<open>Lemmas\<close>

lemma overwrite_activity_keys:
  "map (\<lambda>a. (user_id a, act_date a)) (overwrite_activity i st en no sa acts) =
   map (\<lambda>a. (user_id a, act_date a)) acts"
  by (induction acts) (auto simp: overwrite_activity_def)

lemma overwrite_activity_ids: "map act_id (overwrite_activity i st en no sa acts) = map act_id acts"
  by (induction acts) (auto simp: overwrite_activity_def)

lemma find_activity_overwrite:
  "find_activity v e (overwrite_activity i st en no sa acts) =
   map_option (\<lambda>a. if act_id a = i then a\<lparr>start_time := st, end_time := en, act_notes := no, salary := sa\<rparr> else a)
     (find_activity v e acts)"
  unfolding find_activity_def overwrite_activity_def
  by (rule find_map_pred_inv) simp

lemma insert_activity_keys:
  "map (\<lambda>a. (user_id a, act_date a)) (insert_activity d st en no sa u acts) =
   map (\<lambda>a. (user_id a, act_date a)) acts @ [(u, d)]"
  by (simp add: insert_activity_def)

lemma insert_activity_ids:
  "map act_id (insert_activity d st en no sa u acts) = map act_id acts @ [next_rowid (map act_id acts)]"
  by (simp add: insert_activity_def)

lemma find_activity_insert:
  "find_activity v e (insert_activity d st en no sa u acts) =
   (case find_activity v e acts of
      None \<Rightarrow> (if v = u \<and> e = d
                then Some \<lparr>act_id = next_rowid (map act_id acts), act_date = d, start_time = st,
                           end_time = en, act_notes = no, salary = sa, user_id = u\<rparr>
                else None)
    | Some a \<Rightarrow> Some a)"
  by (auto simp: find_activity_def insert_activity_def find_append_list split: option.splits)

lemma save_event_cases:
  "save_event pd s rq db = (r, db') \<Longrightarrow>
   (r \<noteq> JsonSuccess \<and> db' = db) \<or>
   (\<exists>u ds d st en no sa. s = Some u \<and> rq_date rq = Some ds \<and> pd ds = Some d \<and>
      rq_start rq = Some st \<and> rq_end rq = Some en \<and> rq_notes rq = Some no \<and> rq_salary rq = Some sa \<and>
      r = JsonSuccess \<and>
      (find_activity u d (activities db) = None \<and>
         db' = db\<lparr>activities := insert_activity d st en no sa u (activities db)\<rparr> \<or>
       (\<exists>ex. find_activity u d (activities db) = Some ex \<and>
         db' = db\<lparr>activities := overwrite_activity (act_id ex) st en no sa (activities db)\<rparr>)))"
  by (auto simp: save_event_def split: option.splits)

lemma save_event_inv [inv_intros]:
  assumes "db_inv db"
  shows "db_inv (snd (save_event pd s rq db))"
proof -
  obtain r db' where eq: "save_event pd s rq db = (r, db')" by fastforce
  from save_event_cases [OF eq] assms have "db_inv db'"
    by (auto simp: db_inv_def overwrite_activity_keys overwrite_activity_ids
        insert_activity_keys insert_activity_ids find_activity_None)
  with eq show ?thesis by simp
qed

lemma save_event_request_inv [inv_intros]:
  "db_inv db \<Longrightarrow> db_inv (snd (save_event_request pd s b db))"
  by (auto simp: save_event_request_def intro: save_event_inv split: sum.splits option.splits)

lemma delete_event_inv [inv_intros]:
  assumes "db_inv db"
  shows "db_inv (snd (delete_event s i db))"
  using assms
  by (auto simp: delete_event_def db_inv_def sorted_wrt_map sorted_wrt_filter distinct_map_filter
      split: option.splits)

lemma save_event_refines:
  assumes inv: "db_inv db" and d: "pd ds = Some d"
  shows "fst (save_event pd (Some u) (full_event_req ds st en no sa) db) = JsonSuccess \<and>
         calendar (snd (save_event pd (Some u) (full_event_req ds st en no sa) db)) =
           (calendar db)(u := (calendar db u)(d \<mapsto> (st, en, no, sa)))"
proof -
  define db' where "db' = snd (save_event pd (Some u) (full_event_req ds st en no sa) db)"
  have eq: "save_event pd (Some u) (full_event_req ds st en no sa) db = (JsonSuccess, db')"
    using d unfolding db'_def by (simp add: save_event_def split: option.splits)
  from inv have ids: "sorted_wrt (<) (map act_id (activities db))" by (simp add: db_inv_def)
  have "calendar db' = (calendar db)(u := (calendar db u)(d \<mapsto> (st, en, no, sa)))"
  proof (cases "find_activity u d (activities db)")
    case None
    with eq d have "db' = db\<lparr>activities := insert_activity d st en no sa u (activities db)\<rparr>"
      by (simp add: save_event_def)
    with None show ?thesis
      by (auto simp: fun_eq_iff calendar_def find_activity_insert entry_of_def split: option.splits)
  next
    case (Some ex)
    with eq d have db': "db' = db\<lparr>activities := overwrite_activity (act_id ex) st en no sa (activities db)\<rparr>"
      by (simp add: save_event_def)
    have other: "act_id b \<noteq> act_id ex"
      if "find_activity v e (activities db) = Some b" "(v, e) \<noteq> (u, d)" for v e b
      using that Some find_activity_Some act_id_inj [OF ids] by metis
    have "calendar db' v e = ((calendar db)(u := (calendar db u)(d \<mapsto> (st, en, no, sa)))) v e" for v e
      using Some other [of v e]
      by (cases "find_activity v e (activities db)")
        (auto simp: db' calendar_def find_activity_overwrite entry_of_def)
    then show ?thesis by (simp add: fun_eq_iff)
  qed
  with eq show ?thesis by simp
qed

lemma save_event_full_success:
  "pd ds = Some d \<Longrightarrow> fst (save_event pd (Some u) (full_event_req ds st en no sa) db) = JsonSuccess"
  by (simp add: save_event_def split: option.splits)

subsection \<open>Upsert and delete refine the calendar\<close>

lemma save_event_users: "users (snd (save_event pd s rq db)) = users db"
  by (simp add: save_event_def split: option.splits)

lemma save_event_request_users: "users (snd (save_event_request pd s b db)) = users db"
  by (simp add: save_event_request_def save_event_users split: sum.splits option.splits)

lemma delete_event_users: "users (snd (delete_event s i db)) = users db"
  by (simp add: delete_event_def split: option.splits)

lemma get_events_resp [response_sets]:
  "get_events pd s a b db \<in> insert JsonException (range JsonEvents)"
  by (simp add: get_events_def split: option.splits prod.splits)

lemma get_event_resp [response_sets]:
  "get_event pd s ds db \<in> {JsonError Unauthorized 401, JsonException} \<union> range JsonEvent"
  by (simp add: get_event_def split: option.splits)

lemma save_event_resp:
  "fst (save_event pd s rq db) \<in> {JsonError Unauthorized 401, JsonException, JsonSuccess}"
  by (simp add: save_event_def split: option.splits)

lemma json_failure_status_cases: "json_failure_status f \<in> {400, 415}"
  by (cases f) simp_all

lemma save_event_request_resp [response_sets]:
  "fst (save_event_request pd s b db) \<in>
     {JsonError Unauthorized 401, JsonException, JsonSuccess, HttpError 400, HttpError 415}"
  using save_event_resp [of pd s _ db] json_failure_status_cases
  by (auto simp: save_event_request_def split: sum.splits option.splits)

lemma delete_event_resp [response_sets]:
  "fst (delete_event s i db) \<in> {JsonError Unauthorized 401, JsonError NotFound 404, JsonSuccess}"
  by (simp add: delete_event_def split: option.splits)

text \<open>
  C1. \<open>save_event\<close> is an upsert keyed on (user, date): on a database that
  satisfies the invariant, a request with a parsable date and all four
  fields succeeds, and the user's calendar afterwards maps that date to the
  submitted entry (whether a row for that date existed or not), while every
  other date and every other user's calendar is unchanged.
\<close>

theorem save_event_calendar:
  assumes inv: "db_inv db" and d: "pd ds = Some d"
  shows "fst (save_event pd (Some u) (full_event_req ds st en no sa) db) = JsonSuccess \<and>
         calendar (snd (save_event pd (Some u) (full_event_req ds st en no sa) db)) =
           (calendar db)(u := (calendar db u)(d \<mapsto> (st, en, no, sa)))"
  using assms by (rule save_event_refines)

theorem save_event_calendar_witness:
  "db_inv empty_db \<and> (\<lambda>_. Some (Date 2024 1 1)) ''2024-01-01'' = Some (Date 2024 1 1) \<and>
   fst (save_event (\<lambda>_. Some (Date 2024 1 1)) (Some 1)
          (full_event_req ''2024-01-01'' ''08:00'' ''16:00'' ''shift'' 100) empty_db) = JsonSuccess \<and>
   calendar (snd (save_event (\<lambda>_. Some (Date 2024 1 1)) (Some 1)
          (full_event_req ''2024-01-01'' ''08:00'' ''16:00'' ''shift'' 100) empty_db)) =
     (calendar empty_db)(1 := (calendar empty_db 1)(Date 2024 1 1 \<mapsto> (''08:00'', ''16:00'', ''shift'', 100)))"
proof -
  have h: "db_inv empty_db" by (simp add: db_inv_def empty_db_def)
  show ?thesis
    using h save_event_calendar [where pd = "\<lambda>_. Some (Date 2024 1 1)" and ds = "''2024-01-01''", OF h]
    by simp
qed

text \<open>
  C3. \<open>delete_event\<close> by the owner of the row with the given id succeeds and
  removes exactly that date from the owner's calendar; no other calendar entry
  changes.
\<close>

theorem delete_event_calendar:
  assumes inv: "db_inv db" and a: "get_activity i (activities db) = Some a" "user_id a = u"
  shows "fst (delete_event (Some u) i db) = JsonSuccess \<and>
         calendar (snd (delete_event (Some u) i db)) = (calendar db)(u := (calendar db u)(act_date a := None))"
proof -
  from inv have ids: "sorted_wrt (<) (map act_id (activities db))"
    and keys: "distinct (map (\<lambda>a. (user_id a, act_date a)) (activities db))"
    by (simp_all add: db_inv_def)
  from a have mem: "a \<in> set (activities db)" "act_id a = i" by (simp_all add: get_activity_Some)
  let ?acts' = "filter (\<lambda>b. act_id b \<noteq> i) (activities db)"
  have "find_activity v e ?acts' = (if (v, e) = (u, act_date a) then None else find_activity v e (activities db))"
    for v e
  proof (cases "(v, e) = (u, act_date a)")
    case True
    have "\<forall>b\<in>set (activities db). \<not> ((user_id b = v \<and> act_date b = e) \<and> act_id b \<noteq> i)"
      using True a mem distinct_map_eqD [OF keys] by fastforce
    with True show ?thesis by (simp add: find_activity_def find_filter_conj find_None_iff_all)
  next
    case False
    have "\<And>b. b \<in> set (activities db) \<Longrightarrow>
            ((user_id b = v \<and> act_date b = e) \<and> act_id b \<noteq> i) = (user_id b = v \<and> act_date b = e)"
      using False a mem act_id_inj [OF ids] by fastforce
    then have "find_activity v e ?acts' = find_activity v e (activities db)"
      by (simp add: find_activity_def find_filter_conj cong: find_cong_set)
    with False show ?thesis by auto
  qed
  with a show ?thesis
    by (auto simp: delete_event_def calendar_def fun_eq_iff)
qed

theorem delete_event_calendar_witness:
  "db_inv (empty_db\<lparr>activities := [sample_activity]\<rparr>) \<and>
   get_activity 1 (activities (empty_db\<lparr>activities := [sample_activity]\<rparr>)) = Some sample_activity \<and>
   user_id sample_activity = 1 \<and>
   fst (delete_event (Some 1) 1 (empty_db\<lparr>activities := [sample_activity]\<rparr>)) = JsonSuccess \<and>
   calendar (snd (delete_event (Some 1) 1 (empty_db\<lparr>activities := [sample_activity]\<rparr>))) =
     (calendar (empty_db\<lparr>activities := [sample_activity]\<rparr>))
       (1 := (calendar (empty_db\<lparr>activities := [sample_activity]\<rparr>) 1)(act_date sample_activity := None))"
proof -
  have h1: "db_inv (empty_db\<lparr>activities := [sample_activity]\<rparr>)"
    by (simp add: db_inv_def empty_db_def sample_activity_def)
  have h2: "get_activity 1 (activities (empty_db\<lparr>activities := [sample_activity]\<rparr>)) = Some sample_activity"
    by (simp add: get_activity_def sample_activity_def)
  have h3: "user_id sample_activity = 1" by (simp add: sample_activity_def)
  show ?thesis
    using h1 h2 h3 delete_event_calendar [OF h1 h2 h3] by simp
qed

subsection \<open>Ownership, repeated saves, round trip, errors\<close>

text \<open>
  C4. \<open>delete_event\<close> by a user who does not own the row with the given id
  (or when there is no such row) answers \<open>404 Not found\<close> and leaves the
  database unchanged.
\<close>

theorem delete_event_not_owner:
  "(\<forall>a. get_activity i (activities db) = Some a \<longrightarrow> user_id a \<noteq> u) \<Longrightarrow>
   delete_event (Some u) i db = (JsonError NotFound 404, db)"
  by (auto simp: delete_event_def split: option.splits)

theorem delete_event_not_owner_witness:
  "delete_event (Some 2) 1 (empty_db\<lparr>activities := [sample_activity]\<rparr>) =
     (JsonError NotFound 404, empty_db\<lparr>activities := [sample_activity]\<rparr>)"
proof -
  have h: "\<forall>a. get_activity 1 (activities (empty_db\<lparr>activities := [sample_activity]\<rparr>)) = Some a \<longrightarrow> user_id a \<noteq> 2"
    by (simp add: get_activity_def sample_activity_def)
  show ?thesis using delete_event_not_owner [OF h] .
qed

text \<open>
  C2. Two sequential \<open>save_event\<close> requests of one user for the same date
  leave exactly one row for that (user, date), holding the second request's
  values: the second save overwrites all four fields.
\<close>

theorem save_event_twice:
  assumes "db_inv db" "pd ds = Some d"
  shows "\<exists>a. filter (\<lambda>a. user_id a = u \<and> act_date a = d)
               (activities (snd (save_event pd (Some u) (full_event_req ds st' en' no' sa')
                  (snd (save_event pd (Some u) (full_event_req ds st en no sa) db))))) = [a] \<and>
             entry_of a = (st', en', no', sa')"
proof -
  define db1 where "db1 = snd (save_event pd (Some u) (full_event_req ds st en no sa) db)"
  define db2 where "db2 = snd (save_event pd (Some u) (full_event_req ds st' en' no' sa') db1)"
  have inv1: "db_inv db1" unfolding db1_def by (rule save_event_inv [OF assms(1)])
  then have inv2: "db_inv db2" unfolding db2_def by (rule save_event_inv)
  from save_event_refines [where pd = pd and ds = ds, OF inv1 assms(2)] have "calendar db2 u d = Some (st', en', no', sa')"
    unfolding db2_def by simp
  then obtain a where fa: "find_activity u d (activities db2) = Some a" and ea: "entry_of a = (st', en', no', sa')"
    by (auto simp: calendar_def)
  from fa have "a \<in> set (activities db2)" "user_id a = u" "act_date a = d"
    by (simp_all add: find_activity_Some)
  with inv2 filter_key_singleton [of "\<lambda>a. (user_id a, act_date a)"]
  have "filter (\<lambda>b. user_id b = u \<and> act_date b = d) (activities db2) = [a]"
    by (fastforce simp: db_inv_def)
  with ea show ?thesis unfolding db2_def db1_def by blast
qed

theorem save_event_twice_witness:
  "db_inv empty_db \<and> (\<lambda>_. Some (Date 2024 1 1)) ''d'' = Some (Date 2024 1 1) \<and>
   (\<exists>a. filter (\<lambda>a. user_id a = 1 \<and> act_date a = Date 2024 1 1)
          (activities (snd (save_event (\<lambda>_. Some (Date 2024 1 1)) (Some 1) (full_event_req ''d'' ''09:00'' ''17:00'' ''b'' 80)
             (snd (save_event (\<lambda>_. Some (Date 2024 1 1)) (Some 1) (full_event_req ''d'' ''08:00'' ''16:00'' ''a'' 100) empty_db))))) = [a] \<and>
        entry_of a = (''09:00'', ''17:00'', ''b'', 80))"
proof -
  have h: "db_inv empty_db" by (simp add: db_inv_def empty_db_def)
  show ?thesis
    using h save_event_twice [where pd = "\<lambda>_. Some (Date 2024 1 1)" and ds = "''d''" and d = "Date 2024 1 1"
        and u = 1 and st = "''08:00''" and en = "''16:00''" and no = "''a''" and sa = 100
        and st' = "''09:00''" and en' = "''17:00''" and no' = "''b''" and sa' = 80, OF h]
    by simp
qed

text \<open>
  C10. Round trip: after \<open>save_event\<close> for a date, \<open>get_event\<close> for any string
  that parses to the same date returns the saved start, end, notes and salary
  verbatim (the notes are not cut to 255 characters).
\<close>

theorem save_then_get_event:
  assumes "db_inv db" "pd ds = Some d" "pd ds' = Some d"
  shows "\<exists>i. get_event pd (Some u) ds' (snd (save_event pd (Some u) (full_event_req ds st en no sa) db)) =
             JsonEvent (Some \<lparr>det_start = st, det_end = en, det_notes = no, det_salary = sa, det_id = i\<rparr>)"
proof -
  from save_event_refines [where pd = pd and ds = ds, OF assms(1,2)]
  have "calendar (snd (save_event pd (Some u) (full_event_req ds st en no sa) db)) u d = Some (st, en, no, sa)"
    by simp
  then obtain a where "find_activity u d (activities (snd (save_event pd (Some u) (full_event_req ds st en no sa) db))) = Some a"
    and "entry_of a = (st, en, no, sa)"
    by (auto simp: calendar_def)
  with assms(3) show ?thesis
    by (auto simp: get_event_def event_detail_of_def entry_of_def)
qed

theorem save_then_get_event_witness:
  "db_inv empty_db \<and>
   (\<lambda>_. Some (Date 2024 1 1)) ''2024-01-01'' = Some (Date 2024 1 1) \<and>
   (\<exists>i. get_event (\<lambda>_. Some (Date 2024 1 1)) (Some 1) ''01.01.2024''
          (snd (save_event (\<lambda>_. Some (Date 2024 1 1)) (Some 1)
             (full_event_req ''2024-01-01'' ''08:00'' ''16:00'' ''shift'' 100) empty_db)) =
        JsonEvent (Some \<lparr>det_start = ''08:00'', det_end = ''16:00'', det_notes = ''shift'', det_salary = 100, det_id = i\<rparr>))"
proof -
  have h: "db_inv empty_db" by (simp add: db_inv_def empty_db_def)
  show ?thesis
    using h save_then_get_event [where pd = "\<lambda>_. Some (Date 2024 1 1)" and ds = "''2024-01-01''"
        and ds' = "''01.01.2024''" and d = "Date 2024 1 1", OF h]
    by simp
qed

text \<open>
  C11. A \<open>save_event\<close> request that does not succeed leaves the database
  unchanged, and answers 401 exactly when there is no session and the
  caught-exception response 500 otherwise.
\<close>

theorem save_event_failure_atomic:
  "save_event pd s rq db = (r, db') \<Longrightarrow> r \<noteq> JsonSuccess \<Longrightarrow>
   db' = db \<and> (s = None \<and> r = JsonError Unauthorized 401 \<or> s \<noteq> None \<and> r = JsonException)"
  by (auto simp: save_event_def split: option.splits)

theorem save_event_failure_atomic_witness:
  "snd (save_event (\<lambda>_. None) (Some 1) (full_event_req ''tomorrow'' ''08:00'' ''16:00'' [] 1) empty_db) =
     empty_db"
proof -
  have h1: "save_event (\<lambda>_. None) (Some 1) (full_event_req ''tomorrow'' ''08:00'' ''16:00'' [] 1) empty_db =
              (JsonException, empty_db)"
    by (simp add: save_event_def)
  have h2: "JsonException \<noteq> JsonSuccess" by simp
  from save_event_failure_atomic [OF h1 h2] h1 show ?thesis by simp
qed

text \<open>
  C12. \<open>save_event\<close> validates nothing beyond the presence of the keys and the
  parsability of the date: it succeeds exactly when there is a session, the
  date parses, and start, end, notes and salary are all present, whatever
  their values (an end before the start, a negative salary, a malformed time).
\<close>

theorem save_event_success_iff:
  "fst (save_event pd s rq db) = JsonSuccess \<longleftrightarrow>
   s \<noteq> None \<and> (\<exists>ds d. rq_date rq = Some ds \<and> pd ds = Some d) \<and>
   rq_start rq \<noteq> None \<and> rq_end rq \<noteq> None \<and> rq_notes rq \<noteq> None \<and> rq_salary rq \<noteq> None"
  by (auto simp: save_event_def split: option.splits)

subsection \<open>Listing and lookup\<close>

lemma get_events_rows:
  "get_events pd (Some u) st en db = JsonEvents evs \<Longrightarrow>
   \<exists>xs. evs = map event_summary_of xs \<and> (\<forall>a\<in>set xs. a \<in> set (activities db) \<and> user_id a = u)"
  by (auto simp: get_events_def user_activities_def activities_in_range_def
      split: option.splits prod.splits)

lemma distinct_dates_of_user:
  "distinct (map (\<lambda>a. (user_id a, act_date a)) acts) \<Longrightarrow>
   distinct (map act_date (filter (\<lambda>a. user_id a = u \<and> P a) acts))"
  by (induction acts) (force simp: image_iff)+

text \<open>
  C13. With both range arguments given and parsed, \<open>get_events\<close> lists the
  user's calendar restricted to the range: one summary per dated entry, the
  ISO dates of exactly the dates in \<open>[start, end]\<close> that have an entry, no
  date twice, in increasing id order.
\<close>

theorem get_events_range:
  assumes inv: "db_inv db" and args: "range_args st en = Some (a, b)"
    and sd: "pd a = Some sd" and ed: "pd b = Some ed"
  shows "\<exists>evs. get_events pd (Some u) st en db = JsonEvents evs \<and>
           sorted_wrt (<) (map ev_id evs) \<and> distinct (map start evs) \<and>
           set (map start evs) = isoformat ` {d. sd \<le> d \<and> d \<le> ed \<and> calendar db u d \<noteq> None}"
proof -
  let ?xs = "activities_in_range u sd ed (activities db)"
  have ev: "get_events pd (Some u) st en db = JsonEvents (map event_summary_of ?xs)"
    using args sd ed by (simp add: get_events_def)
  have "sorted_wrt (<) (map act_id ?xs)"
    using inv by (simp add: db_inv_def activities_in_range_def sorted_wrt_map sorted_wrt_filter)
  then have s: "sorted_wrt (<) (map ev_id (map event_summary_of ?xs))"
    by (simp add: event_summary_of_def comp_def)
  have "distinct (map act_date ?xs)"
    using inv distinct_dates_of_user [of "activities db" u "\<lambda>a. sd \<le> act_date a \<and> act_date a \<le> ed"]
    by (simp add: db_inv_def activities_in_range_def)
  then have d: "distinct (map start (map event_summary_of ?xs))"
    using isoformat_inj by (simp add: event_summary_of_def comp_def distinct_map inj_on_def)
  have h: "act_date ` set ?xs = {d. sd \<le> d \<and> d \<le> ed \<and> calendar db u d \<noteq> None}"
    by (auto simp: activities_in_range_def calendar_def find_activity_None)
  have st: "(\<lambda>x. start (event_summary_of x)) = (\<lambda>x. isoformat (act_date x))"
    by (simp add: fun_eq_iff event_summary_of_def)
  have e: "set (map start (map event_summary_of ?xs)) =
             isoformat ` {d. sd \<le> d \<and> d \<le> ed \<and> calendar db u d \<noteq> None}"
    by (simp only: set_map image_image st h [symmetric])
  from ev s d e show ?thesis by blast
qed

theorem get_events_range_witness:
  "\<exists>evs. get_events iso_parse (Some 1) (Some (isoformat (Date 2024 1 1))) (Some (isoformat (Date 2024 1 31)))
            (empty_db\<lparr>activities := [sample_activity]\<rparr>) = JsonEvents evs \<and>
         sorted_wrt (<) (map ev_id evs) \<and> distinct (map start evs) \<and>
         set (map start evs) = isoformat ` {d. Date 2024 1 1 \<le> d \<and> d \<le> Date 2024 1 31 \<and>
           calendar (empty_db\<lparr>activities := [sample_activity]\<rparr>) 1 d \<noteq> None}"
proof -
  have h1: "db_inv (empty_db\<lparr>activities := [sample_activity]\<rparr>)"
    by (simp add: db_inv_def empty_db_def)
  have h2: "range_args (Some (isoformat (Date 2024 1 1))) (Some (isoformat (Date 2024 1 31))) =
              Some (isoformat (Date 2024 1 1), isoformat (Date 2024 1 31))"
    by (simp add: isoformat_nonempty)
  have h3: "iso_parse (isoformat (Date 2024 1 1)) = Some (Date 2024 1 1)" by (rule iso_parse_isoformat)
  have h4: "iso_parse (isoformat (Date 2024 1 31)) = Some (Date 2024 1 31)" by (rule iso_parse_isoformat)
  from get_events_range [where pd = iso_parse and u = 1, OF h1 h2 h3 h4] show ?thesis .
qed

text \<open>
  C14. Round trip between the listing and the detail route: for a parser that
  reads ISO dates back, every event that \<open>get_events\<close> lists is found by
  \<open>get_event\<close> at its \<open>start\<close> string, and the detail has the listed id.
\<close>

theorem get_events_then_get_event:
  assumes inv: "db_inv db" and iso: "\<forall>d. pd (isoformat d) = Some d"
    and ev: "get_events pd (Some u) st en db = JsonEvents evs" and e: "e \<in> set evs"
  shows "\<exists>det. get_event pd (Some u) (start e) db = JsonEvent (Some det) \<and> det_id det = ev_id e"
proof -
  obtain xs where xs: "evs = map event_summary_of xs" "\<forall>a\<in>set xs. a \<in> set (activities db) \<and> user_id a = u"
    using get_events_rows [OF ev] by blast
  then obtain a where a: "e = event_summary_of a" "a \<in> set (activities db)" "user_id a = u"
    using e by auto
  have "find_activity u (act_date a) (activities db) = Some a"
    using find_activity_unique [of "activities db" a] inv a by (simp add: db_inv_def)
  then show ?thesis
    using a iso by (simp add: get_event_def event_summary_of_def event_detail_of_def)
qed

theorem get_events_then_get_event_witness:
  "\<exists>det. get_event iso_parse (Some 1) (start (event_summary_of sample_activity))
            (empty_db\<lparr>activities := [sample_activity]\<rparr>) = JsonEvent (Some det) \<and>
          det_id det = ev_id (event_summary_of sample_activity)"
proof -
  have h1: "db_inv (empty_db\<lparr>activities := [sample_activity]\<rparr>)"
    by (simp add: db_inv_def empty_db_def)
  have h2: "\<forall>d. iso_parse (isoformat d) = Some d" by (simp add: iso_parse_isoformat)
  have h3: "get_events iso_parse (Some 1) None None (empty_db\<lparr>activities := [sample_activity]\<rparr>) =
              JsonEvents [event_summary_of sample_activity]"
    by (simp add: get_events_def user_activities_def sample_activity_def)
  have h4: "event_summary_of sample_activity \<in> set [event_summary_of sample_activity]" by simp
  from get_events_then_get_event [OF h1 h2 h3 h4] show ?thesis .
qed

subsection \<open>Reuse of ids\<close>

text \<open>
  C15. Ids of deleted activities come back: if the owner deletes the row
  that is last in rowid order and whose id is one more than every remaining
  id (as when no other row was deleted since those ids were allocated), the
  next save for a new date creates a row with that same id. A client still holding the old id (another tab of the calendar)
  now addresses a different event.
\<close>

theorem delete_then_save_reuses_id:
  assumes last: "activities db = xs @ [a]" and owner: "user_id a = u"
    and fresh: "act_id a = next_rowid (map act_id xs)"
    and d: "pd ds = Some d" and nodate: "find_activity u d xs = None"
  shows "\<exists>b. activities (snd (save_event pd (Some u) (full_event_req ds st en no sa)
                 (snd (delete_event (Some u) (act_id a) db)))) = xs @ [b] \<and>
             act_id b = act_id a \<and> act_date b = d"
proof -
  have notin: "act_id a \<notin> set (map act_id xs)" using fresh next_rowid_notin by metis
  then have keep: "filter (\<lambda>b. act_id b \<noteq> act_id a) xs = xs"
    by (simp add: filter_id_conv) (metis image_eqI)
  have "snd (delete_event (Some u) (act_id a) db) = db\<lparr>activities := xs\<rparr>"
    using last owner notin keep by (simp add: delete_event_def get_activity_last)
  then show ?thesis
    using d nodate fresh by (simp add: save_event_def insert_activity_def)
qed

theorem delete_then_save_reuses_id_witness:
  "\<exists>b. activities (snd (save_event iso_parse (Some 1) (full_event_req (isoformat (Date 2024 1 2)) ''09:00'' ''17:00'' [] 80)
          (snd (delete_event (Some 1) (act_id sample_activity) (empty_db\<lparr>activities := [sample_activity]\<rparr>))))) =
        [] @ [b] \<and> act_id b = act_id sample_activity \<and> act_date b = Date 2024 1 2"
proof -
  have h1: "activities (empty_db\<lparr>activities := [sample_activity]\<rparr>) = [] @ [sample_activity]" by simp
  have h2: "user_id sample_activity = 1" by (simp add: sample_activity_def)
  have h3: "act_id sample_activity = next_rowid (map act_id [])" by (simp add: sample_activity_def next_rowid_def)
  have h4: "find_activity 1 (Date 2024 1 2) [] = None" by (simp add: find_activity_def)
  have h5: "iso_parse (isoformat (Date 2024 1 2)) = Some (Date 2024 1 2)" by (rule iso_parse_isoformat)
  from delete_then_save_reuses_id [where pd = iso_parse and ds = "isoformat (Date 2024 1 2)" and st = "''09:00''" and en = "''17:00''" and no = "[]" and sa = 80,
      OF h1 h2 h3 h5 h4] show ?thesis .
qed

end
