(* ===== verification/Auth.thy ===== *)
theory Auth
  imports Store
begin

text \<open>
  Registration and the session of \<open>src/app.py\<close>: \<open>register\<close> (lines
  47--58), \<open>login\<close> (60--69), \<open>dashboard\<close> (71--76) and \<open>logout\<close>
  (167--170). A form field missing from the request makes \<open>request.form[...]\<close>
  raise \<open>BadRequestKeyError\<close>, which these handlers do not catch: Flask
  answers 400. Passwords are stored and compared as given.
\<close>

section \<open>Handlers\<close>

text \<open>\<open>POST /register\<close>; \<open>GET /register\<close> renders the form.\<close>

definition register_post :: "string option \<Rightarrow> string option \<Rightarrow> db \<Rightarrow> response \<times> db" where
  "register_post un pw db =
     (case (un, pw) of
        (Some n, Some p) \<Rightarrow>
          (case find_user_by_name n (users db) of
             Some _ \<Rightarrow> (Text UserAlreadyExists 200, db)
           | None \<Rightarrow>
               (Redirect EP_login,
                db\<lparr>users := users db @ [\<lparr>uid = next_rowid (map uid (users db)), username = n, password = p\<rparr>]\<rparr>))
      | _ \<Rightarrow> (HttpError 400, db))"

text \<open>\<open>POST /login\<close>: the session changes only on success.\<close>

definition login_post :: "string option \<Rightarrow> string option \<Rightarrow> sess \<Rightarrow> db \<Rightarrow> response \<times> sess" where
  "login_post un pw s db =
     (case (un, pw) of
        (Some n, Some p) \<Rightarrow>
          (case find_user_cred n p (users db) of
             Some x \<Rightarrow> (Redirect EP_dashboard, Some (uid x))
           | None \<Rightarrow> (Text InvalidCredentials 200, s))
      | _ \<Rightarrow> (HttpError 400, s))"

text \<open>
  \<open>GET /dashboard\<close>: \<open>User.query.get\<close> of a session id that names no user
  gives \<open>None\<close>, and \<open>user.username\<close> then raises \<open>AttributeError\<close>, which
  Flask answers with 500.
\<close>

definition dashboard :: "sess \<Rightarrow> db \<Rightarrow> response" where
  "dashboard s db =
     (case s of
        None \<Rightarrow> Redirect EP_login
      | Some i \<Rightarrow>
          (case get_user i (users db) of
             None \<Rightarrow> HttpError 500
           | Some x \<Rightarrow> CalendarPage (username x)))"

text \<open>\<open>GET /logout\<close>: \<open>session.pop('user_id', None)\<close>.\<close>

definition logout :: "sess \<Rightarrow> response \<times> sess" where
  "logout s = (Redirect EP_index, None)"

text \<open>A user row used in the examples below.\<close>

definition sample_user :: user where
  "sample_user = \<lparr>uid = 1, username = ''alice'', password = ''pw''\<rparr>"

declare register_post_def [handler_defs] login_post_def [handler_defs]
  dashboard_def [handler_defs] logout_def [handler_defs]

section \<open>Lemmas\<close>

lemma find_user_by_name_None: "find_user_by_name n us = None \<longleftrightarrow> n \<notin> username ` set us"
  by (auto simp: find_user_by_name_def find_None_iff_all)

lemma find_user_cred_unique:
  assumes "distinct (map username us)" "x \<in> set us"
  shows "find_user_cred (username x) (password x) us = Some x"
proof -
  have "find (\<lambda>y. username y = username x \<and> password y = password x) us = find (\<lambda>y. username y = username x) us"
    using assms by (auto intro!: find_cong_set dest: distinct_map_eqD)
  also have "\<dots> = Some x" using assms by (rule find_unique) simp
  finally show ?thesis by (simp add: find_user_cred_def)
qed

lemma register_post_inv [inv_intros]: "db_inv db \<Longrightarrow> db_inv (snd (register_post un pw db))"
  by (auto simp: register_post_def db_inv_def find_user_by_name_None split: option.splits)

subsection \<open>Registration and login\<close>

lemma register_post_users: "set (users db) \<subseteq> set (users (snd (register_post un pw db)))"
  by (auto simp: register_post_def split: option.splits)

lemma login_post_session:
  "snd (login_post un pw s db) = s \<or> (\<exists>x\<in>set (users db). snd (login_post un pw s db) = Some (uid x))"
  by (auto simp: login_post_def dest: find_user_cred_mem split: option.splits)

lemma register_post_resp [response_sets]:
  "fst (register_post un pw db) \<in> {Text UserAlreadyExists 200, Redirect EP_login, HttpError 400}"
  by (simp add: register_post_def split: option.splits)

lemma login_post_resp [response_sets]:
  "fst (login_post un pw s db) \<in> {Redirect EP_dashboard, Text InvalidCredentials 200, HttpError 400}"
  by (simp add: login_post_def split: option.splits)

lemma dashboard_resp [response_sets]:
  "dashboard s db \<in> {Redirect EP_login, HttpError 500} \<union> range CalendarPage"
  by (simp add: dashboard_def split: option.splits)

text \<open>
  C19. Registering a user name that was just registered fails with the
  message \<open>User already exists\<close> and leaves the database as the first
  registration left it, whatever the second password.
\<close>

theorem register_twice:
  "register_post (Some n) (Some p') (snd (register_post (Some n) (Some p) db)) =
     (Text UserAlreadyExists 200, snd (register_post (Some n) (Some p) db))"
  by (auto simp: register_post_def find_user_by_name_def find_append_list split: option.splits)

text \<open>
  C20. Login with the stored user name and password of a user binds the
  session to that user's id and redirects to the dashboard (user names are
  unique, so the right user is found).
\<close>

theorem login_valid:
  "db_inv db \<Longrightarrow> x \<in> set (users db) \<Longrightarrow>
   login_post (Some (username x)) (Some (password x)) s db = (Redirect EP_dashboard, Some (uid x))"
  by (simp add: login_post_def db_inv_def find_user_cred_unique)

theorem login_valid_witness:
  "login_post (Some ''alice'') (Some ''pw'') None (empty_db\<lparr>users := [sample_user]\<rparr>) =
     (Redirect EP_dashboard, Some 1)"
proof -
  have h1: "db_inv (empty_db\<lparr>users := [sample_user]\<rparr>)"
    by (simp add: db_inv_def empty_db_def)
  have h2: "sample_user \<in> set (users (empty_db\<lparr>users := [sample_user]\<rparr>))" by simp
  from login_valid [OF h1 h2] show ?thesis by (simp add: sample_user_def)
qed

text \<open>
  C21. Login with a name and password that match no user answers
  \<open>Invalid credentials\<close> and leaves the session exactly as it was: a session
  already bound to some user stays bound.
\<close>

theorem login_invalid:
  "(\<forall>x\<in>set (users db). username x \<noteq> n \<or> password x \<noteq> p) \<Longrightarrow>
   login_post (Some n) (Some p) s db = (Text InvalidCredentials 200, s)"
  by (simp add: login_post_def find_user_cred_def find_None_iff_all [THEN iffD2])

theorem login_invalid_witness:
  "login_post (Some ''alice'') (Some ''wrong'') (Some 7) (empty_db\<lparr>users := [sample_user]\<rparr>) =
     (Text InvalidCredentials 200, Some 7)"
proof -
  have h: "\<forall>x\<in>set (users (empty_db\<lparr>users := [sample_user]\<rparr>)). username x \<noteq> ''alice'' \<or> password x \<noteq> ''wrong''"
    by (simp add: sample_user_def)
  from login_invalid [OF h] show ?thesis .
qed

text \<open>
  C22. Round trip: after registering a fresh user name, logging in with the
  same name and password succeeds and binds the session to the new user's
  rowid.
\<close>

theorem register_then_login:
  assumes "n \<notin> username ` set (users db)"
  shows "login_post (Some n) (Some p) s (snd (register_post (Some n) (Some p) db)) =
           (Redirect EP_dashboard, Some (next_rowid (map uid (users db))))"
proof -
  from assms have "find_user_by_name n (users db) = None"
    by (simp add: find_user_by_name_None)
  moreover from assms have "find_user_cred n p (users db) = None"
    by (auto simp: find_user_cred_def find_None_iff_all)
  ultimately show ?thesis
    by (simp add: register_post_def login_post_def find_user_cred_def find_append_list)
qed


theorem register_then_login_witness:
  "login_post (Some ''alice'') (Some ''pw'') None (snd (register_post (Some ''alice'') (Some ''pw'') empty_db)) =
     (Redirect EP_dashboard, Some 1)"
proof -
  have h: "''alice'' \<notin> username ` set (users empty_db)" by (simp add: empty_db_def)
  from register_then_login [OF h] show ?thesis by (simp add: next_rowid_def empty_db_def)
qed

end
