(* ===== verification/Feedback.thy ===== *)
theory Feedback
  imports Store "HOL-Library.Multiset"
begin

text \<open>
  The public feedback form of \<open>src/app.py\<close>: the home page \<open>index\<close>
  (lines 42--45) lists all feedback newest first, and \<open>submit_feedback\<close>
  (172--189) appends a row. \<open>submit_feedback\<close> catches every exception,
  including the \<open>BadRequestKeyError\<close> of a missing form field, and then
  answers 500. The server clock \<open>datetime.utcnow()\<close> at insertion is the
  parameter \<open>now\<close>.
\<close>

section \<open>Handlers\<close>

text \<open>
  \<open>Feedback.query.order_by(Feedback.timestamp.desc()).all()\<close>: SQL leaves
  the order of equal timestamps open; the model keeps them in rowid order
  (a stable sort on the negated timestamp).
\<close>

definition feedback_newest_first :: "feedback list \<Rightarrow> feedback list" where
  "feedback_newest_first fbs = sort_key (\<lambda>f. - int (timestamp f)) fbs"

definition index :: "db \<Rightarrow> response" where
  "index db = IndexPage (feedback_newest_first (feedbacks db))"

definition submit_feedback ::
  "timestamp \<Rightarrow> string option \<Rightarrow> string option \<Rightarrow> string option \<Rightarrow> db \<Rightarrow> response \<times> db" where
  "submit_feedback now su na me db =
     (case (su, na, me) of
        (Some sj, Some nm, Some ms) \<Rightarrow>
          (if sj = [] \<or> nm = [] \<or> ms = [] then (Text FillAllFields 400, db)
           else (Redirect EP_index,
                 db\<lparr>feedbacks := feedbacks db @
                      [\<lparr>fb_id = next_rowid (map fb_id (feedbacks db)), subject = sj, fb_name = nm,
                        message = ms, timestamp = now\<rparr>]\<rparr>))
      | _ \<Rightarrow> (Text FeedbackSaveFailed 500, db))"

declare index_def [handler_defs] submit_feedback_def [handler_defs]

text \<open>A feedback row used in the examples below.\<close>

definition sample_feedback :: feedback where
  "sample_feedback = \<lparr>fb_id = 1, subject = ''hi'', fb_name = ''bob'', message = ''nice'', timestamp = 10\<rparr>"

section \<open>Lemmas\<close>

lemma feedback_newest_first_sorted:
  "sorted_wrt (\<lambda>f g. timestamp g \<le> timestamp f) (feedback_newest_first fbs)"
proof -
  have "sorted (map (\<lambda>f. - int (timestamp f)) (feedback_newest_first fbs))"
    by (simp add: feedback_newest_first_def)
  then show ?thesis by (simp add: sorted_map sorted_wrt_iff_nth_less)
qed

lemma sort_key_append_least:
  fixes f :: "'a \<Rightarrow> 'b::linorder"
  assumes "\<forall>y\<in>set xs. f x < f y"
  shows "sort_key f (xs @ [x]) = x # sort_key f xs"
proof (rule properties_for_sort_key)
  show "mset (x # sort_key f xs) = mset (xs @ [x])" by simp
next
  show "sorted (map f (x # sort_key f xs))"
    using assms by (auto simp: less_imp_le)
next
  fix k assume "k \<in> set (x # sort_key f xs)"
  show "filter (\<lambda>z. f k = f z) (x # sort_key f xs) = filter (\<lambda>z. f k = f z) (xs @ [x])"
  proof (cases "f k = f x")
    case True
    with assms have "filter (\<lambda>z. f k = f z) xs = []"
      by (auto simp: filter_empty_conv)
    moreover from this have "filter (\<lambda>z. f k = f z) (sort_key f xs) = []"
      using sort_key_stable [of f "f k" xs] by (simp add: eq_commute)
    ultimately show ?thesis using True by simp
  next
    case False
    have "filter (\<lambda>z. f k = f z) (sort_key f xs) = filter (\<lambda>z. f k = f z) xs"
      using sort_key_stable [of f "f k" xs] by (simp add: eq_commute)
    with False show ?thesis by simp
  qed
qed

lemma submit_feedback_inv [inv_intros]: "db_inv db \<Longrightarrow> db_inv (snd (submit_feedback t su na me db))"
  by (auto simp: submit_feedback_def db_inv_def split: option.splits)

subsection \<open>Listing and submitting\<close>

lemma submit_feedback_users: "users (snd (submit_feedback t a b c db)) = users db"
  by (simp add: submit_feedback_def split: option.splits)

lemma submit_feedback_resp [response_sets]:
  "fst (submit_feedback t a b c db) \<in> {Text FillAllFields 400, Redirect EP_index, Text FeedbackSaveFailed 500}"
  by (simp add: submit_feedback_def split: option.splits)

text \<open>
  C31. The home page lists every stored feedback exactly once, newest first.
\<close>

theorem index_newest_first:
  "\<exists>fs. index db = IndexPage fs \<and> mset fs = mset (feedbacks db) \<and>
        sorted_wrt (\<lambda>f g. timestamp g \<le> timestamp f) fs"
  using feedback_newest_first_sorted [of "feedbacks db"]
  by (simp add: index_def feedback_newest_first_def)

text \<open>
  C32. A feedback submitted with three non-empty fields at a time later than
  every stored timestamp is the first entry of the home page afterwards,
  followed by the earlier list.
\<close>

theorem submit_then_index:
  assumes "\<forall>f\<in>set (feedbacks db). timestamp f < now" and "sj \<noteq> []" "nm \<noteq> []" "ms \<noteq> []"
  shows "index (snd (submit_feedback now (Some sj) (Some nm) (Some ms) db)) =
           IndexPage (\<lparr>fb_id = next_rowid (map fb_id (feedbacks db)), subject = sj, fb_name = nm,
                       message = ms, timestamp = now\<rparr> # feedback_newest_first (feedbacks db))"
proof -
  have "\<forall>y\<in>set (feedbacks db). - int now < - int (timestamp y)" using assms(1) by auto
  then show ?thesis
    using assms(2-4)
    by (simp add: submit_feedback_def index_def feedback_newest_first_def sort_key_append_least)
qed

theorem submit_then_index_witness:
  "index (snd (submit_feedback 20 (Some ''q'') (Some ''ann'') (Some ''ok'') (empty_db\<lparr>feedbacks := [sample_feedback]\<rparr>))) =
     IndexPage [\<lparr>fb_id = 2, subject = ''q'', fb_name = ''ann'', message = ''ok'', timestamp = 20\<rparr>, sample_feedback]"
proof -
  have h: "\<forall>f\<in>set (feedbacks (empty_db\<lparr>feedbacks := [sample_feedback]\<rparr>)). timestamp f < 20"
    by (simp add: sample_feedback_def)
  have h2: "''q'' \<noteq> []" "''ann'' \<noteq> []" "''ok'' \<noteq> []" by simp_all
  from submit_then_index [OF h h2] show ?thesis
    by (simp add: feedback_newest_first_def next_rowid_def sample_feedback_def)
qed

text \<open>
  C33. A submission is refused without touching the table in exactly the
  cases the handler guards: when all three fields are present and one of
  them is empty, the answer is 400 "fill in all fields"; when a field is
  missing from the form, \<open>request.form[...]\<close> raises and the exception
  handler answers 500.
\<close>

theorem submit_feedback_rejected:
  "((sj = [] \<or> nm = [] \<or> ms = []) \<longrightarrow>
      submit_feedback t (Some sj) (Some nm) (Some ms) db = (Text FillAllFields 400, db)) \<and>
   ((su = None \<or> na = None \<or> me = None) \<longrightarrow>
      submit_feedback t su na me db = (Text FeedbackSaveFailed 500, db))"
  by (auto simp: submit_feedback_def split: option.splits)

theorem submit_feedback_rejected_witness:
  "submit_feedback 20 (Some ''q'') (Some []) (Some ''ok'') empty_db = (Text FillAllFields 400, empty_db) \<and>
   submit_feedback 20 (Some ''q'') None (Some ''ok'') empty_db = (Text FeedbackSaveFailed 500, empty_db)"
  using submit_feedback_rejected [where sj = "''q''" and nm = "[]" and ms = "''ok''" and su = "Some ''q''"
    and na = None and me = "Some ''ok''" and t = 20 and db = empty_db]
  by simp

end
