(* ===== verification/Statistics.thy ===== *)
theory Statistics
  imports Store
begin

text \<open>
  \<open>calculate_statistics\<close> of \<open>src/app.py\<close> (lines 194--267): the period
  selects a date range anchored at the server's date \<open>today\<close>, the user's
  activities in that range are loaded in rowid order, and the handler returns
  sums, maxima and minima of their durations and salaries, rounded to two
  decimals, with a per-activity detail list. Every exception inside the
  \<open>try\<close> (a date that does not parse, a time that is not \<open>H:M\<close>) becomes
  the 500 answer \<open>JsonException\<close>.
\<close>

section \<open>Request and period\<close>

text \<open>
  The JSON body when it is an object: \<open>data.get(...)\<close> is \<open>None\<close> for a
  missing key. A body that is not a JSON object is the handler's argument
  \<open>None\<close>: \<open>request.json\<close> then raises or gives a value without \<open>.get\<close>,
  inside the \<open>try\<close>.
\<close>

record stats_req =
  sr_period :: "string option"
  sr_start_date :: "string option"
  sr_end_date :: "string option"

text \<open>\<open>max(1, today.day - 7)\<close>, computed on Python integers.\<close>

definition week_start_day :: "date \<Rightarrow> nat" where
  "week_start_day today = nat (max 1 (int (day today) - 7))"

text \<open>
  The \<open>if\<close>/\<open>elif\<close> chain on the period: \<open>Inr (start, end)\<close>, or the
  response the handler returns at once.
\<close>

definition period_range :: "date_parser \<Rightarrow> date \<Rightarrow> stats_req \<Rightarrow> response + date \<times> date" where
  "period_range pd today rq =
     (let parse = (\<lambda>x. case x of None \<Rightarrow> None | Some str \<Rightarrow> pd str)
      in if sr_period rq = Some ''week'' then
           (case replace_day today (week_start_day today) of
              None \<Rightarrow> Inl JsonException | Some sd \<Rightarrow> Inr (sd, today))
         else if sr_period rq = Some ''month'' then
           (case replace_day today 1 of
              None \<Rightarrow> Inl JsonException | Some sd \<Rightarrow> Inr (sd, today))
         else if sr_period rq = Some ''year'' then
           (case replace_month_day today 1 1 of
              None \<Rightarrow> Inl JsonException | Some sd \<Rightarrow> Inr (sd, today))
         else if sr_period rq = Some ''custom'' then
           (case parse (sr_start_date rq) of
              None \<Rightarrow> Inl JsonException
            | Some sd \<Rightarrow>
                (case parse (sr_end_date rq) of
                   None \<Rightarrow> Inl JsonException
                 | Some ed \<Rightarrow> Inr (sd, ed)))
         else Inl (JsonError UnknownPeriod 400))"

section \<open>Durations\<close>

text \<open>\<open>h, m = map(int, t.split(":"))\<close>: exactly two pieces, each an integer.\<close>

definition parse_hm :: "string \<Rightarrow> (int \<times> int) option" where
  "parse_hm t =
     (case split_on CHR '':'' t of
        [a, b] \<Rightarrow>
          (case py_int a of
             None \<Rightarrow> None
           | Some h \<Rightarrow> (case py_int b of None \<Rightarrow> None | Some m \<Rightarrow> Some (h, m)))
      | _ \<Rightarrow> None)"

text \<open>\<open>calc_duration\<close>: minutes of the end minus minutes of the start, in hours.\<close>

definition calc_duration :: "activity \<Rightarrow> real option" where
  "calc_duration a =
     (case parse_hm (start_time a) of
        None \<Rightarrow> None
      | Some (h1, m1) \<Rightarrow>
          (case parse_hm (end_time a) of
             None \<Rightarrow> None
           | Some (h2, m2) \<Rightarrow> Some (of_int (h2 * 60 + m2 - h1 * 60 - m1) / 60)))"

text \<open>A time as the calendar front end writes it, \<open>"HH:MM"\<close>.\<close>

abbreviation hhmm :: "nat \<Rightarrow> nat \<Rightarrow> string" where
  "hhmm h m \<equiv> zpad 2 h @ CHR '':'' # zpad 2 m"

section \<open>The handler\<close>

definition zero_stats :: stats where
  "zero_stats =
     \<lparr>total_hours = 0, total_salary = 0, max_hours = 0, min_hours = 0,
      max_salary = 0, min_salary = 0, details = []\<rparr>"

definition stat_detail_of :: "activity \<Rightarrow> real \<Rightarrow> stat_detail" where
  "stat_detail_of a d = \<lparr>sd_date = strftime_dmy (act_date a), sd_duration = round2 d, sd_salary = salary a\<rparr>"

text \<open>
  The aggregates over a non-empty list of activities whose durations are
  \<open>ds\<close>; \<open>max\<close> and \<open>min\<close> raise on an empty list, which the handler's
  emptiness check rules out.
\<close>

definition aggregate :: "activity list \<Rightarrow> real list \<Rightarrow> response" where
  "aggregate acts ds =
     (let sals = map salary acts
      in case (py_max ds, py_min ds, py_max sals, py_min sals) of
           (Some mxh, Some mnh, Some mxs, Some mns) \<Rightarrow>
             JsonStats
               \<lparr>total_hours = round2 (py_sum ds), total_salary = round2 (py_sum sals),
                max_hours = round2 mxh, min_hours = round2 mnh,
                max_salary = round2 mxs, min_salary = round2 mns,
                details = map2 stat_detail_of acts ds\<rparr>
         | _ \<Rightarrow> JsonException)"

definition calculate_statistics :: "date_parser \<Rightarrow> date \<Rightarrow> sess \<Rightarrow> stats_req option \<Rightarrow> db \<Rightarrow> response" where
  "calculate_statistics pd today s body db =
     (case s of
        None \<Rightarrow> JsonError Unauthorized 401
      | Some u \<Rightarrow>
          (case body of
             None \<Rightarrow> JsonException
           | Some rq \<Rightarrow>
               (case period_range pd today rq of
                  Inl r \<Rightarrow> r
                | Inr (sd, ed) \<Rightarrow>
                    (let acts = activities_in_range u sd ed (activities db)
                     in if acts = [] then JsonStats zero_stats
                        else (case those (map calc_duration acts) of
                                None \<Rightarrow> JsonException
                              | Some ds \<Rightarrow> aggregate acts ds)))))"

declare calculate_statistics_def [handler_defs]

text \<open>The two activities of the worked example of the specification.\<close>

definition example_db :: db where
  "example_db = empty_db\<lparr>activities :=
     [\<lparr>act_id = 1, act_date = Date 2024 1 1, start_time = ''08:00'', end_time = ''16:00'',
       act_notes = [], salary = 100, user_id = 1\<rparr>,
      \<lparr>act_id = 2, act_date = Date 2024 1 2, start_time = ''08:00'', end_time = ''12:00'',
       act_notes = [], salary = 50, user_id = 1\<rparr>]\<rparr>"

definition example_parser :: date_parser where
  "example_parser str =
     (if str = ''2024-01-01'' then Some (Date 2024 1 1)
      else if str = ''2024-01-02'' then Some (Date 2024 1 2) else None)"

definition example_stats :: stats where
  "example_stats =
     \<lparr>total_hours = 12, total_salary = 150, max_hours = 8, min_hours = 4,
      max_salary = 100, min_salary = 50,
      details = [\<lparr>sd_date = ''01.01.2024'', sd_duration = 8, sd_salary = 100\<rparr>,
                 \<lparr>sd_date = ''02.01.2024'', sd_duration = 4, sd_salary = 50\<rparr>]\<rparr>"

text \<open>The request \<open>{"period": "custom", "start_date": ..., "end_date": ...}\<close>.\<close>

abbreviation custom_req :: "string \<Rightarrow> string \<Rightarrow> stats_req" where
  "custom_req a b \<equiv> \<lparr>sr_period = Some ''custom'', sr_start_date = Some a, sr_end_date = Some b\<rparr>"

section \<open>Lemmas\<close>

lemma aggregate_JsonStats:
  assumes h: "aggregate acts ds = JsonStats st"
  shows "ds \<noteq> [] \<and> acts \<noteq> [] \<and>
   st = \<lparr>total_hours = round2 (sum_list ds), total_salary = round2 (sum_list (map salary acts)),
         max_hours = round2 (Max (set ds)), min_hours = round2 (Min (set ds)),
         max_salary = round2 (Max (salary ` set acts)), min_salary = round2 (Min (salary ` set acts)),
         details = map2 stat_detail_of acts ds\<rparr>"
proof -
  have ds: "ds \<noteq> []" using h by (auto simp: aggregate_def Let_def)
  moreover have acts: "acts \<noteq> []" using h by (auto simp: aggregate_def Let_def split: option.splits)
  ultimately show ?thesis
    using h by (simp add: aggregate_def Let_def py_max_Max py_min_Min py_sum_sum_list)
qed

lemma period_range_Inl: "period_range pd today rq = Inl r \<Longrightarrow> r = JsonException \<or> r = JsonError UnknownPeriod 400"
  by (auto simp: period_range_def Let_def split: option.splits if_splits)

lemma calculate_statistics_JsonStats:
  "calculate_statistics pd today s rq db = JsonStats st \<Longrightarrow>
   st = zero_stats \<or> (\<exists>acts ds. aggregate acts ds = JsonStats st)"
  by (auto simp: calculate_statistics_def Let_def split: option.splits sum.splits if_splits
      prod.splits dest: period_range_Inl)

lemma colon_notin_zpad: "CHR '':'' \<notin> set (zpad w n)"
proof
  assume "CHR '':'' \<in> set (zpad w n)"
  then obtain k where "k < 10" "CHR '':'' = digit_char k" using zpad_chars by blast
  then show False using digit_char_props(6) by metis
qed

lemma parse_hm_hhmm: "parse_hm (hhmm h m) = Some (int h, int m)"
  by (simp add: parse_hm_def split_on_append_sep split_on_no_sep colon_notin_zpad py_int_zpad_aux)

subsection \<open>Properties of the statistics\<close>

lemma aggregate_nonempty:
  assumes "acts \<noteq> []" "length ds = length acts"
  shows "aggregate acts ds =
    JsonStats \<lparr>total_hours = round2 (sum_list ds), total_salary = round2 (sum_list (map salary acts)),
               max_hours = round2 (Max (set ds)), min_hours = round2 (Min (set ds)),
               max_salary = round2 (Max (salary ` set acts)), min_salary = round2 (Min (salary ` set acts)),
               details = map2 stat_detail_of acts ds\<rparr>"
proof -
  have "ds \<noteq> []" using assms by auto
  with assms(1) show ?thesis by (simp add: aggregate_def Let_def py_max_Max py_min_Min py_sum_sum_list)
qed

lemma aggregate_resp: "aggregate acts ds \<in> insert JsonException (range JsonStats)"
  by (simp add: aggregate_def Let_def split: option.splits)

lemma calculate_statistics_resp [response_sets]:
  "calculate_statistics pd t s rq db \<in>
     {JsonError Unauthorized 401, JsonException, JsonError UnknownPeriod 400} \<union> range JsonStats"
  using aggregate_resp
  by (auto simp: calculate_statistics_def Let_def dest: period_range_Inl split: option.splits sum.splits)

text \<open>
  C24. A period whose range holds no activity of the user yields the all-zero
  statistics with an empty detail list, not an error.
\<close>

theorem statistics_empty_range:
  "period_range pd today rq = Inr (sd, ed) \<Longrightarrow> activities_in_range u sd ed (activities db) = [] \<Longrightarrow>
   calculate_statistics pd today (Some u) (Some rq) db = JsonStats zero_stats"
  by (simp add: calculate_statistics_def)

theorem statistics_empty_range_witness:
  "calculate_statistics example_parser (Date 2024 5 5) (Some 1) (Some (custom_req ''2024-01-01'' ''2024-01-02'')) empty_db =
     JsonStats zero_stats"
proof -
  have h1: "period_range example_parser (Date 2024 5 5) (custom_req ''2024-01-01'' ''2024-01-02'') =
              Inr (Date 2024 1 1, Date 2024 1 2)"
    by (simp add: period_range_def example_parser_def)
  have h2: "activities_in_range 1 (Date 2024 1 1) (Date 2024 1 2) (activities empty_db) = []"
    by (simp add: activities_in_range_def empty_db_def)
  from statistics_empty_range [OF h1 h2] show ?thesis .
qed

text \<open>
  C25. Whatever the request, statistics that are returned satisfy
  min <= max for hours and for salaries, and every detail's rounded duration
  lies between the rounded minimum and maximum hours. Rounding to two
  decimals is monotone, so it keeps these orders.
\<close>

theorem statistics_bounds:
  assumes "calculate_statistics pd today s rq db = JsonStats st"
  shows "min_hours st \<le> max_hours st \<and> min_salary st \<le> max_salary st \<and>
         (\<forall>x\<in>set (details st). min_hours st \<le> sd_duration x \<and> sd_duration x \<le> max_hours st)"
  using calculate_statistics_JsonStats [OF assms]
proof
  assume "st = zero_stats"
  then show ?thesis by (simp add: zero_stats_def)
next
  assume "\<exists>acts ds. aggregate acts ds = JsonStats st"
  then obtain acts ds where agg: "aggregate acts ds = JsonStats st" by blast
  note st = aggregate_JsonStats [OF agg]
  have dur: "Min (set ds) \<le> d \<and> d \<le> Max (set ds)" if "d \<in> set ds" for d
    using that by simp
  have "x \<in> set (map2 stat_detail_of acts ds) \<Longrightarrow>
        \<exists>d\<in>set ds. sd_duration x = round2 d" for x
    by (auto simp: stat_detail_of_def dest: set_zip_rightD)
  moreover from st obtain d0 where "d0 \<in> set ds" by (meson list.set_sel(1))
  moreover from st obtain a0 where "a0 \<in> set acts" by (meson list.set_sel(1))
  ultimately show ?thesis
    using st dur by (fastforce intro: round2_mono order.trans [OF Min_le Max_ge])
qed

theorem statistics_bounds_witness:
  "min_hours example_stats \<le> max_hours example_stats \<and> min_salary example_stats \<le> max_salary example_stats"
proof -
  have h: "calculate_statistics example_parser (Date 2024 5 5) (Some 1) (Some (custom_req ''2024-01-01'' ''2024-01-02''))
     example_db = JsonStats example_stats"
    by (simp add: calculate_statistics_def period_range_def example_parser_def example_db_def empty_db_def
      activities_in_range_def less_eq_date_def calc_duration_def parse_hm_def py_int_def strip_def
      is_space_def is_digit_def digit_val_def aggregate_def py_sum_def round2_def round_half_even_def
      stat_detail_of_def strftime_dmy_def zpad_def digits10.simps digit_char_def char_of_eq_iff
      example_stats_def)
  from statistics_bounds [OF h] show ?thesis by simp
qed

text \<open>
  C26. The "week" period runs from day \<open>max(1, d - 7)\<close> of the current month
  to today: for a valid date it always succeeds, and it covers
  \<open>min 8 d\<close> calendar days. From the 8th of a month on that is eight days,
  not seven, and before the 8th the range never reaches into the previous
  month.
\<close>

theorem week_period_days:
  assumes "valid_date today"
  shows "period_range pd today \<lparr>sr_period = Some ''week'', sr_start_date = a, sr_end_date = b\<rparr> =
           Inr (Date (year today) (month today) (week_start_day today), today) \<and>
         card {x. valid_date x \<and> Date (year today) (month today) (week_start_day today) \<le> x \<and> x \<le> today} =
           min 8 (day today)"
proof -
  obtain y m d where t: "today = Date y m d" by (cases today)
  with assms have v: "valid_date (Date y m d)" and d1: "1 \<le> d" by (auto simp: valid_date_def)
  have ws: "week_start_day today = nat (max 1 (int d - 7))" by (simp add: week_start_day_def t)
  have "valid_date (Date y m (week_start_day today))"
    using v by (auto simp: valid_date_def ws)
  then have "period_range pd today \<lparr>sr_period = Some ''week'', sr_start_date = a, sr_end_date = b\<rparr> =
           Inr (Date (year today) (month today) (week_start_day today), today)"
    by (simp add: period_range_def replace_day_def t)
  moreover have "card {x. valid_date x \<and> Date y m (week_start_day today) \<le> x \<and> x \<le> Date y m d} = min 8 d"
    using card_dates_between_same_month [OF v, of "week_start_day today"] d1 by (simp add: ws)
  ultimately show ?thesis by (simp add: t)
qed

theorem week_period_days_witness:
  "card {x. valid_date x \<and> Date 2024 5 13 \<le> x \<and> x \<le> Date 2024 5 20} = 8"
proof -
  have h: "valid_date (Date 2024 5 20)"
    by (simp add: valid_date_def days_in_month_def)
  from week_period_days [OF h, of example_parser None None] show ?thesis
    by (simp add: week_start_day_def)
qed

text \<open>
  C29. For times written \<open>"HH:MM"\<close>, \<open>calc_duration\<close> is exactly the end
  minus the start in minutes, divided by 60. Nothing checks that the end
  follows the start: an overnight shift 22:00--06:00 counts as -16 hours.
\<close>

theorem calc_duration_hhmm:
  "start_time a = hhmm h1 m1 \<Longrightarrow> end_time a = hhmm h2 m2 \<Longrightarrow>
   calc_duration a = Some ((int (h2 * 60 + m2) - int (h1 * 60 + m1)) / 60)"
  by (simp add: calc_duration_def parse_hm_hhmm algebra_simps)

theorem calc_duration_hhmm_witness:
  "calc_duration \<lparr>act_id = 1, act_date = Date 2024 1 1, start_time = ''22:00'', end_time = ''06:00'',
                  act_notes = [], salary = 0, user_id = 1\<rparr> = Some (-16)"
proof -
  have h1: "hhmm 22 0 = start_time \<lparr>act_id = 1, act_date = Date 2024 1 1, start_time = ''22:00'', end_time = ''06:00'',
                  act_notes = [], salary = 0, user_id = 1\<rparr>"
    by (simp add: zpad_def digits10.simps digit_char_def char_of_eq_iff)
  have h2: "hhmm 6 0 = end_time \<lparr>act_id = 1, act_date = Date 2024 1 1, start_time = ''22:00'', end_time = ''06:00'',
                  act_notes = [], salary = 0, user_id = 1\<rparr>"
    by (simp add: zpad_def digits10.simps digit_char_def char_of_eq_iff)
  from calc_duration_hhmm [OF h1 [symmetric] h2 [symmetric]] show ?thesis by simp
qed

text \<open>
  C30. One activity in the range whose start or end time is not of the form
  \<open>H:M\<close> makes the whole statistics request fail with the 500 exception
  answer; the malformed value was accepted by \<open>save_event\<close> without
  complaint.
\<close>

theorem statistics_malformed_time:
  assumes "period_range pd today rq = Inr (sd, ed)"
    and "a \<in> set (activities_in_range u sd ed (activities db))" and "calc_duration a = None"
  shows "calculate_statistics pd today (Some u) (Some rq) db = JsonException"
proof -
  from assms(2,3) have "those (map calc_duration (activities_in_range u sd ed (activities db))) = None"
    by (force simp: those_None_iff)
  with assms(1,2) show ?thesis by (auto simp: calculate_statistics_def Let_def)
qed

theorem statistics_malformed_time_witness:
  "calculate_statistics example_parser (Date 2024 5 5) (Some 1) (Some (custom_req ''2024-01-01'' ''2024-01-02''))
     (example_db\<lparr>activities := [\<lparr>act_id = 1, act_date = Date 2024 1 1, start_time = ''8am'',
        end_time = ''16:00'', act_notes = [], salary = 100, user_id = 1\<rparr>]\<rparr>) = JsonException"
proof -
  have h1: "period_range example_parser (Date 2024 5 5) (custom_req ''2024-01-01'' ''2024-01-02'') =
              Inr (Date 2024 1 1, Date 2024 1 2)"
    by (simp add: period_range_def example_parser_def)
  have h2: "\<lparr>act_id = 1, act_date = Date 2024 1 1, start_time = ''8am'', end_time = ''16:00'', act_notes = [],
              salary = 100, user_id = 1\<rparr> \<in>
            set (activities_in_range 1 (Date 2024 1 1) (Date 2024 1 2)
              (activities (example_db\<lparr>activities := [\<lparr>act_id = 1, act_date = Date 2024 1 1, start_time = ''8am'',
                 end_time = ''16:00'', act_notes = [], salary = 100, user_id = 1\<rparr>]\<rparr>)))"
    by (simp add: activities_in_range_def less_eq_date_def)
  have h3: "calc_duration \<lparr>act_id = 1, act_date = Date 2024 1 1, start_time = ''8am'', end_time = ''16:00'',
              act_notes = [], salary = 100, user_id = 1\<rparr> = None"
    by (simp add: calc_duration_def parse_hm_def)
  from statistics_malformed_time [OF h1 h2 h3] show ?thesis .
qed

text \<open>
  C27. The "month" period runs from the first of the current month and the
  "year" period from the first of January, both through today, for any valid
  date today.
\<close>

theorem period_range_month_year:
  assumes "valid_date today"
  shows "period_range pd today (rq\<lparr>sr_period := Some ''month''\<rparr>) = Inr (Date (year today) (month today) 1, today) \<and>
         period_range pd today (rq\<lparr>sr_period := Some ''year''\<rparr>) = Inr (Date (year today) 1 1, today)"
  using assms replace_day_first [OF assms] replace_month_day_jan1 [OF assms] by (simp add: period_range_def)

theorem period_range_month_year_witness:
  "period_range example_parser (Date 2024 5 20)
     (\<lparr>sr_period = None, sr_start_date = None, sr_end_date = None\<rparr>\<lparr>sr_period := Some ''month''\<rparr>) =
       Inr (Date 2024 5 1, Date 2024 5 20) \<and>
   period_range example_parser (Date 2024 5 20)
     (\<lparr>sr_period = None, sr_start_date = None, sr_end_date = None\<rparr>\<lparr>sr_period := Some ''year''\<rparr>) =
       Inr (Date 2024 1 1, Date 2024 5 20)"
proof -
  have h: "valid_date (Date 2024 5 20)" by (simp add: valid_date_def days_in_month_def)
  from period_range_month_year [where pd = example_parser
      and rq = "\<lparr>sr_period = None, sr_start_date = None, sr_end_date = None\<rparr>", OF h]
  show ?thesis by (simp only: date.sel)
qed

text \<open>
  C28. A JSON object whose period is other than the four known names, or
  missing, is answered with the "unknown period" error and status 400 before
  any query; a body that is not a JSON object at all is answered with the
  500 exception response instead, since \<open>request.json\<close> is read inside the
  \<open>try\<close>.
\<close>

theorem statistics_unknown_period:
  assumes "sr_period rq \<notin> Some ` {''week'', ''month'', ''year'', ''custom''}"
  shows "calculate_statistics pd today (Some u) (Some rq) db = JsonError UnknownPeriod 400 \<and>
         calculate_statistics pd today (Some u) None db = JsonException"
  using assms by (auto simp: calculate_statistics_def period_range_def)

theorem statistics_unknown_period_witness:
  "calculate_statistics example_parser (Date 2024 5 20) (Some 1)
     (Some \<lparr>sr_period = Some ''day'', sr_start_date = None, sr_end_date = None\<rparr>) example_db =
   JsonError UnknownPeriod 400 \<and>
   calculate_statistics example_parser (Date 2024 5 20) (Some 1) None example_db = JsonException"
proof -
  have h: "sr_period \<lparr>sr_period = Some ''day'', sr_start_date = None, sr_end_date = None\<rparr>
             \<notin> Some ` {''week'', ''month'', ''year'', ''custom''}" by simp
  from statistics_unknown_period [OF h] show ?thesis .
qed

text \<open>
  C23. Functional specification of the aggregates: when the range holds
  activities and every duration parses, the answer is the sum, maximum and
  minimum of the durations and of the salaries, each rounded to two places,
  and one detail per activity in the store's order.
\<close>

theorem statistics_aggregates:
  assumes "period_range pd today rq = Inr (sd, ed)"
    and "activities_in_range u sd ed (activities db) = acts" "acts \<noteq> []"
    and "those (map calc_duration acts) = Some ds"
  shows "calculate_statistics pd today (Some u) (Some rq) db =
    JsonStats \<lparr>total_hours = round2 (sum_list ds), total_salary = round2 (sum_list (map salary acts)),
               max_hours = round2 (Max (set ds)), min_hours = round2 (Min (set ds)),
               max_salary = round2 (Max (salary ` set acts)), min_salary = round2 (Min (salary ` set acts)),
               details = map2 stat_detail_of acts ds\<rparr>"
proof -
  have "length ds = length acts" using those_length [OF assms(4)] by simp
  with assms show ?thesis by (simp add: calculate_statistics_def aggregate_nonempty)
qed

theorem statistics_aggregates_witness:
  "calculate_statistics example_parser (Date 2024 5 5) (Some 1) (Some (custom_req ''2024-01-01'' ''2024-01-01''))
     (empty_db\<lparr>activities := [\<lparr>act_id = 1, act_date = Date 2024 1 1, start_time = ''08:00'',
        end_time = ''16:00'', act_notes = [], salary = 100, user_id = 1\<rparr>]\<rparr>) =
   JsonStats \<lparr>total_hours = round2 (sum_list [8]), total_salary = round2 (sum_list (map salary
       [\<lparr>act_id = 1, act_date = Date 2024 1 1, start_time = ''08:00'', end_time = ''16:00'', act_notes = [],
         salary = 100, user_id = 1\<rparr>])),
     max_hours = round2 (Max (set [8])), min_hours = round2 (Min (set [8])),
     max_salary = round2 (Max (salary ` set [\<lparr>act_id = 1, act_date = Date 2024 1 1, start_time = ''08:00'',
        end_time = ''16:00'', act_notes = [], salary = 100, user_id = 1\<rparr>])),
     min_salary = round2 (Min (salary ` set [\<lparr>act_id = 1, act_date = Date 2024 1 1, start_time = ''08:00'',
        end_time = ''16:00'', act_notes = [], salary = 100, user_id = 1\<rparr>])),
     details = map2 stat_detail_of [\<lparr>act_id = 1, act_date = Date 2024 1 1, start_time = ''08:00'',
        end_time = ''16:00'', act_notes = [], salary = 100, user_id = 1\<rparr>] [8]\<rparr>"
proof -
  have e1: "hhmm 8 0 = ''08:00''" by (simp add: zpad_def digits10.simps digit_char_def char_of_eq_iff)
  have e2: "hhmm 16 0 = ''16:00''" by (simp add: zpad_def digits10.simps digit_char_def char_of_eq_iff)
  have p1: "parse_hm ''08:00'' = Some (8, 0)" using parse_hm_hhmm [of 8 0] by (simp only: e1) simp
  have p2: "parse_hm ''16:00'' = Some (16, 0)" using parse_hm_hhmm [of 16 0] by (simp only: e2) simp
  have h1: "period_range example_parser (Date 2024 5 5) (custom_req ''2024-01-01'' ''2024-01-01'') =
              Inr (Date 2024 1 1, Date 2024 1 1)"
    by (simp add: period_range_def example_parser_def)
  have h2: "activities_in_range 1 (Date 2024 1 1) (Date 2024 1 1)
     (activities (empty_db\<lparr>activities := [\<lparr>act_id = 1, act_date = Date 2024 1 1, start_time = ''08:00'',
        end_time = ''16:00'', act_notes = [], salary = 100, user_id = 1\<rparr>]\<rparr>)) =
     [\<lparr>act_id = 1, act_date = Date 2024 1 1, start_time = ''08:00'', end_time = ''16:00'', act_notes = [],
         salary = 100, user_id = 1\<rparr>]"
    by (simp add: activities_in_range_def)
  have h3: "[\<lparr>act_id = 1, act_date = Date 2024 1 1, start_time = ''08:00'', end_time = ''16:00'', act_notes = [],
         salary = 100, user_id = 1\<rparr>] \<noteq> []" by simp
  have h4: "those (map calc_duration [\<lparr>act_id = 1, act_date = Date 2024 1 1, start_time = ''08:00'',
        end_time = ''16:00'', act_notes = [], salary = 100, user_id = 1\<rparr>]) = Some [8]"
    by (simp add: calc_duration_def p1 p2)
  from statistics_aggregates [OF h1 h2 h3 h4] show ?thesis .
qed

end
