(* ===== verification/App.thy ===== *)
theory App
  imports Activities Auth Feedback Statistics
begin

text \<open>
  The application as a whole: the routes of \<open>src/app.py\<close> as one datatype of
  requests and one step function \<open>handle\<close> that dispatches to the handler
  theories, with the responses and statuses each route can give; many
  clients, each with its own session cookie, served one request at a time
  against one database, with forged cookies (\<open>reachable\<close>) or without
  (\<open>honest_reachable\<close>); and the read and write halves of \<open>save_event\<close>
  and of \<open>register\<close>, so that interleaved requests can be stated.
\<close>

section \<open>Requests and dispatch\<close>

text \<open>What a handler reads besides the request: the date parser, the clock and today's date.\<close>

record env =
  parser :: date_parser
  now :: timestamp
  today :: date

datatype request =
    Index                                                      \<comment> \<open>\<open>GET /\<close>\<close>
  | RegisterForm                                               \<comment> \<open>\<open>GET /register\<close>\<close>
  | Register "string option" "string option"                   \<comment> \<open>\<open>POST /register\<close>\<close>
  | LoginForm                                                  \<comment> \<open>\<open>GET /login\<close>\<close>
  | Login "string option" "string option"                      \<comment> \<open>\<open>POST /login\<close>\<close>
  | Dashboard                                                  \<comment> \<open>\<open>GET /dashboard\<close>\<close>
  | Events "string option" "string option"                     \<comment> \<open>\<open>GET /events?start&end\<close>\<close>
  | GetEvent string                                            \<comment> \<open>\<open>GET /event/<date>\<close>\<close>
  | SaveEvent "json_failure + event_req"                       \<comment> \<open>\<open>POST /event\<close>\<close>
  | DeleteEvent aid                                            \<comment> \<open>\<open>POST /event/delete/<id>\<close>\<close>
  | Logout                                                     \<comment> \<open>\<open>GET /logout\<close>\<close>
  | SubmitFeedback "string option" "string option" "string option" \<comment> \<open>\<open>POST /submit_feedback\<close>\<close>
  | Statistics "stats_req option"                             \<comment> \<open>\<open>POST /statistics\<close>\<close>

fun handle :: "env \<Rightarrow> request \<Rightarrow> sess \<Rightarrow> db \<Rightarrow> response \<times> sess \<times> db" where
  "handle e Index s db = (index db, s, db)"
| "handle e RegisterForm s db = (Form T_register, s, db)"
| "handle e (Register un pw) s db = (let (r, db') = register_post un pw db in (r, s, db'))"
| "handle e LoginForm s db = (Form T_login, s, db)"
| "handle e (Login un pw) s db = (let (r, s') = login_post un pw s db in (r, s', db))"
| "handle e Dashboard s db = (dashboard s db, s, db)"
| "handle e (Events a b) s db = (get_events (parser e) s a b db, s, db)"
| "handle e (GetEvent ds) s db = (get_event (parser e) s ds db, s, db)"
| "handle e (SaveEvent b) s db = (let (r, db') = save_event_request (parser e) s b db in (r, s, db'))"
| "handle e (DeleteEvent i) s db = (let (r, db') = delete_event s i db in (r, s, db'))"
| "handle e Logout s db = (let (r, s') = logout s in (r, s', db))"
| "handle e (SubmitFeedback a b c) s db =
     (let (r, db') = submit_feedback (now e) a b c db in (r, s, db'))"
| "handle e (Statistics rq) s db = (calculate_statistics (parser e) (today e) s rq db, s, db)"

text \<open>The routes that look at \<open>session['user_id']\<close> before anything else.\<close>

fun protected :: "request \<Rightarrow> bool" where
  "protected Dashboard = True"
| "protected (Events _ _) = True"
| "protected (GetEvent _) = True"
| "protected (SaveEvent _) = True"
| "protected (DeleteEvent _) = True"
| "protected (Statistics _) = True"
| "protected _ = False"

text \<open>
  The interface the routes promise: which routes answer JSON, the statuses
  each route can answer with, and the responses each handler can return.
\<close>

fun json_route :: "request \<Rightarrow> bool" where
  "json_route (Events _ _) = True"
| "json_route (GetEvent _) = True"
| "json_route (SaveEvent _) = True"
| "json_route (DeleteEvent _) = True"
| "json_route (Statistics _) = True"
| "json_route _ = False"

fun route_status :: "request \<Rightarrow> nat set" where
  "route_status Index = {200}"
| "route_status RegisterForm = {200}"
| "route_status (Register _ _) = {200, 302, 400}"
| "route_status LoginForm = {200}"
| "route_status (Login _ _) = {200, 302, 400}"
| "route_status Dashboard = {200, 302, 500}"
| "route_status (Events _ _) = {200, 500}"
| "route_status (GetEvent _) = {200, 401, 500}"
| "route_status (SaveEvent _) = {200, 400, 401, 415, 500}"
| "route_status (DeleteEvent _) = {200, 401, 404}"
| "route_status Logout = {302}"
| "route_status (SubmitFeedback _ _ _) = {302, 400, 500}"
| "route_status (Statistics _) = {200, 400, 401, 500}"

fun responses :: "request \<Rightarrow> response set" where
  "responses Index = range IndexPage"
| "responses RegisterForm = {Form T_register}"
| "responses (Register _ _) = {Text UserAlreadyExists 200, Redirect EP_login, HttpError 400}"
| "responses LoginForm = {Form T_login}"
| "responses (Login _ _) = {Redirect EP_dashboard, Text InvalidCredentials 200, HttpError 400}"
| "responses Dashboard = {Redirect EP_login, HttpError 500} \<union> range CalendarPage"
| "responses (Events _ _) = insert JsonException (range JsonEvents)"
| "responses (GetEvent _) = {JsonError Unauthorized 401, JsonException} \<union> range JsonEvent"
| "responses (SaveEvent _) = {JsonError Unauthorized 401, JsonException, JsonSuccess, HttpError 400, HttpError 415}"
| "responses (DeleteEvent _) = {JsonError Unauthorized 401, JsonError NotFound 404, JsonSuccess}"
| "responses Logout = {Redirect EP_index}"
| "responses (SubmitFeedback _ _ _) = {Text FillAllFields 400, Redirect EP_index, Text FeedbackSaveFailed 500}"
| "responses (Statistics _) =
     {JsonError Unauthorized 401, JsonException, JsonError UnknownPeriod 400} \<union> range JsonStats"

section \<open>Clients and reachable states\<close>

text \<open>
  The server's database and the session cookie each client holds. Besides
  being served, a client may present any session cookie it likes: the signing
  key is a constant of the source (line 8), so a cookie for any user id can
  be forged.
\<close>

record sys =
  store :: db
  sessions :: "nat \<Rightarrow> sess"

definition init_sys :: sys where
  "init_sys = \<lparr>store = empty_db, sessions = (\<lambda>_. None)\<rparr>"

inductive sys_step :: "sys \<Rightarrow> sys \<Rightarrow> bool" where
  serve: "handle e r (sessions S c) (store S) = (resp, s', db') \<Longrightarrow>
          sys_step S \<lparr>store = db', sessions = (sessions S)(c := s')\<rparr>"
| forge: "sys_step S (S\<lparr>sessions := (sessions S)(c := v)\<rparr>)"

inductive reachable :: "sys \<Rightarrow> bool" where
  init: "reachable init_sys"
| step: "reachable S \<Longrightarrow> sys_step S S' \<Longrightarrow> reachable S'"

text \<open>
  The states reached when every client only sends requests and keeps the
  cookie the server gave it.
\<close>

inductive honest_reachable :: "sys \<Rightarrow> bool" where
  init: "honest_reachable init_sys"
| serve: "honest_reachable S \<Longrightarrow> handle e r (sessions S c) (store S) = (resp, s', db') \<Longrightarrow>
          honest_reachable \<lparr>store = db', sessions = (sessions S)(c := s')\<rparr>"

inductive_cases sys_stepE: "sys_step S S'"

section \<open>The two halves of \<open>save_event\<close>\<close>

text \<open>
  \<open>save_event\<close> reads (the query of line 132) and later writes (lines
  134--150) in two statements with no lock between them. The read decides
  between an insert and an update of a given row.
\<close>

datatype save_plan = PlanInsert | PlanUpdate aid

definition save_read :: "uid \<Rightarrow> date \<Rightarrow> db \<Rightarrow> save_plan" where
  "save_read u d db =
     (case find_activity u d (activities db) of None \<Rightarrow> PlanInsert | Some ex \<Rightarrow> PlanUpdate (act_id ex))"

definition save_write :: "save_plan \<Rightarrow> uid \<Rightarrow> date \<Rightarrow> entry \<Rightarrow> db \<Rightarrow> db" where
  "save_write p u d e db =
     (case e of (st, en, no, sa) \<Rightarrow>
        (case p of
           PlanInsert \<Rightarrow> db\<lparr>activities := insert_activity d st en no sa u (activities db)\<rparr>
         | PlanUpdate i \<Rightarrow> db\<lparr>activities := overwrite_activity i st en no sa (activities db)\<rparr>))"

section \<open>The two halves of \<open>register\<close>\<close>

text \<open>
  \<open>register\<close> also reads (line 52) before it writes (lines 54--56). Unlike
  the activity table, the user table declares \<open>username\<close> \<open>unique=True\<close>
  (line 17): a commit that would repeat a name raises \<open>IntegrityError\<close>,
  which the handler does not catch, so Flask answers 500 and nothing is
  written.
\<close>

datatype reg_plan = RegRefuse | RegInsert

definition register_read :: "string \<Rightarrow> db \<Rightarrow> reg_plan" where
  "register_read n db = (case find_user_by_name n (users db) of Some _ \<Rightarrow> RegRefuse | None \<Rightarrow> RegInsert)"

definition register_write :: "reg_plan \<Rightarrow> string \<Rightarrow> string \<Rightarrow> db \<Rightarrow> response \<times> db" where
  "register_write pl n p db =
     (case pl of
        RegRefuse \<Rightarrow> (Text UserAlreadyExists 200, db)
      | RegInsert \<Rightarrow>
          (if find_user_by_name n (users db) \<noteq> None then (HttpError 500, db)
           else (Redirect EP_login,
                 db\<lparr>users := users db @ [\<lparr>uid = next_rowid (map uid (users db)), username = n, password = p\<rparr>]\<rparr>)))"

section \<open>Lemmas\<close>

lemma handle_inv:
  assumes "db_inv db" "handle e r s db = (resp, s', db')"
  shows "db_inv db'"
  using assms by (cases r) (auto simp: prod.case_eq_if intro: inv_intros)

lemma sys_step_inv: "sys_step S S' \<Longrightarrow> db_inv (store S) \<Longrightarrow> db_inv (store S')"
  by (induction rule: sys_step.induct) (auto intro: handle_inv)

lemma handle_users_mono:
  "handle e r s db = (resp, s', db') \<Longrightarrow> set (users db) \<subseteq> set (users db')"
  using register_post_users
  by (cases r) (auto simp: case_prod_beta save_event_request_users delete_event_users submit_feedback_users
      split: prod.splits)

lemma handle_session:
  "handle e r s db = (resp, s', db') \<Longrightarrow> s' = s \<or> s' = None \<or> (\<exists>x\<in>set (users db'). s' = Some (uid x))"
  using login_post_session
  by (cases r) (auto simp: case_prod_beta logout_def split: prod.splits)

lemma honest_reachable_reachable: "honest_reachable S \<Longrightarrow> reachable S"
proof (induction rule: honest_reachable.induct)
  case init
  show ?case by (rule reachable.init)
next
  case (serve S e r c resp s' db')
  from serve.IH sys_step.serve [OF serve.hyps(2)] show ?case by (rule reachable.step)
qed

lemma honest_sessions:
  "honest_reachable S \<Longrightarrow> sessions S c = Some i \<Longrightarrow> \<exists>x\<in>set (users (store S)). uid x = i"
proof (induction arbitrary: c rule: honest_reachable.induct)
  case init
  then show ?case by (simp add: init_sys_def)
next
  case (serve S e r c' resp s' db')
  have mono: "set (users (store S)) \<subseteq> set (users db')" using serve.hyps(2) by (rule handle_users_mono)
  show ?case
  proof (cases "c = c'")
    case True
    with serve.prems have s: "s' = Some i" by simp
    have "\<exists>x\<in>set (users db'). uid x = i"
      using handle_session [OF serve.hyps(2)]
    proof (elim disjE)
      assume "s' = sessions S c'"
      with s have "sessions S c' = Some i" by simp
      then obtain x where "x \<in> set (users (store S))" "uid x = i" using serve.IH by blast
      with mono show ?thesis by blast
    next
      assume "s' = None"
      with s show ?thesis by simp
    next
      assume "\<exists>x\<in>set (users db'). s' = Some (uid x)"
      with s show ?thesis by auto
    qed
    then show ?thesis by simp
  next
    case False
    with serve.prems serve.IH [of c] mono show ?thesis by (simp add: subset_iff) blast
  qed
qed

lemma handle_responses: "fst (handle e r s db) \<in> responses r"
  by (cases r) (simp_all add: response_sets [simplified] case_prod_beta index_def logout_def)

lemma reachable_inv: "reachable S \<Longrightarrow> db_inv (store S)"
proof (induction rule: reachable.induct)
  case init
  show ?case by (simp add: init_sys_def empty_db_def db_inv_def)
next
  case (step S S')
  from step.hyps(2) step.IH show ?case by (rule sys_step_inv)
qed

lemma register_read_write:
  "register_post (Some n) (Some p) db = register_write (register_read n db) n p db"
  by (simp add: register_post_def register_read_def register_write_def split: option.splits)

subsection \<open>An example run\<close>

text \<open>
  The state after one client registers \<open>alice\<close> on the empty database; the
  examples below start from it.
\<close>

lemma alice_db:
  "snd (register_post (Some ''alice'') (Some ''pw'') empty_db) =
     empty_db\<lparr>users := [\<lparr>uid = 1, username = ''alice'', password = ''pw''\<rparr>]\<rparr>"
  by (simp add: register_post_def find_user_by_name_def empty_db_def next_rowid_def)

lemma alice_registered_honest:
  "honest_reachable \<lparr>store = snd (register_post (Some ''alice'') (Some ''pw'') empty_db),
                     sessions = (sessions init_sys)(0 := None)\<rparr>"
  using honest_reachable.serve [OF honest_reachable.init,
      where e = "\<lparr>parser = (\<lambda>_. None), now = 0, today = Date 2024 1 1\<rparr>"
      and r = "Register (Some ''alice'') (Some ''pw'')" and c = 0 and resp = "Redirect EP_login"]
  by (simp add: init_sys_def register_post_def find_user_by_name_def empty_db_def)

lemma alice_registered_reachable:
  "reachable \<lparr>store = snd (register_post (Some ''alice'') (Some ''pw'') empty_db),
              sessions = (sessions init_sys)(0 := None)\<rparr>"
  by (rule honest_reachable_reachable [OF alice_registered_honest])

subsection \<open>Invariant and access control\<close>

text \<open>
  C5. In every state reachable from the empty database, by any interleaving
  of requests of any clients (forged session cookies included), the database
  invariant holds: tables in rowid order, unique user names, and at most one
  activity per user and date.
\<close>

theorem reachable_db_inv: "reachable S \<Longrightarrow> db_inv (store S)"
  by (rule reachable_inv)

theorem reachable_db_inv_witness:
  "db_inv (store \<lparr>store = snd (register_post (Some ''alice'') (Some ''pw'') empty_db),
                  sessions = (sessions init_sys)(0 := None)\<rparr>)"
  using alice_registered_reachable by (rule reachable_db_inv)

text \<open>
  C6. A request to a protected route without a session never touches the
  database or the session: \<open>/events\<close> answers an empty list, \<open>/dashboard\<close>
  redirects to the login page, and the JSON routes answer 401.
\<close>

theorem no_session_protected:
  "protected r \<Longrightarrow> handle e r None db = (resp, s', db') \<Longrightarrow>
   db' = db \<and> s' = None \<and> (resp = JsonError Unauthorized 401 \<or> resp = Redirect EP_login \<or> resp = JsonEvents [])"
  by (cases r) (auto simp: handler_defs split: sum.splits)

theorem no_session_protected_witness:
  "handle \<lparr>parser = (\<lambda>_. Some (Date 2024 1 1)), now = 0, today = Date 2024 1 1\<rparr>
     (SaveEvent (Inr (full_event_req ''2024-01-01'' ''08:00'' ''16:00'' [] 1))) None empty_db =
   (JsonError Unauthorized 401, None, empty_db)"
proof -
  have h1: "protected (SaveEvent (Inr (full_event_req ''2024-01-01'' ''08:00'' ''16:00'' [] 1)))" by simp
  have h2: "handle \<lparr>parser = (\<lambda>_. Some (Date 2024 1 1)), now = 0, today = Date 2024 1 1\<rparr>
     (SaveEvent (Inr (full_event_req ''2024-01-01'' ''08:00'' ''16:00'' [] 1))) None empty_db =
     (JsonError Unauthorized 401, None, empty_db)"
    by (simp add: save_event_request_def save_event_def)
  from no_session_protected [OF h1 h2] h2 show ?thesis by simp
qed

subsection \<open>Interleaving of saves\<close>

lemma save_event_read_write:
  "pd ds = Some d \<Longrightarrow>
   save_event pd (Some u) (full_event_req ds st en no sa) db =
     (JsonSuccess, save_write (save_read u d db) u d (st, en, no, sa) db)"
  by (simp add: save_event_def save_read_def save_write_def split: option.splits)

text \<open>
  C7. Two saves of one user for a date that has no row, whose read halves
  both run before either write half (two concurrent requests), insert two
  rows for that user and date: the one-row-per-date invariant is broken.
\<close>

theorem interleaved_saves_duplicate:
  assumes "find_activity u d (activities db) = None"
  shows "length (filter (\<lambda>a. user_id a = u \<and> act_date a = d)
            (activities (save_write (save_read u d db) u d e2 (save_write (save_read u d db) u d e1 db)))) = 2 \<and>
         \<not> db_inv (save_write (save_read u d db) u d e2 (save_write (save_read u d db) u d e1 db))"
proof -
  have none: "filter (\<lambda>a. user_id a = u \<and> act_date a = d) (activities db) = []"
    using assms by (simp add: find_activity_None filter_empty_conv)
  obtain st1 en1 no1 sa1 where e1: "e1 = (st1, en1, no1, sa1)" by (cases e1) auto
  obtain st2 en2 no2 sa2 where e2: "e2 = (st2, en2, no2, sa2)" by (cases e2) auto
  have "save_read u d db = PlanInsert" using assms by (simp add: save_read_def)
  with none show ?thesis
    by (simp add: e1 e2 save_write_def insert_activity_def db_inv_def)
qed

theorem interleaved_saves_duplicate_witness:
  "length (filter (\<lambda>a. user_id a = 1 \<and> act_date a = Date 2024 1 1)
     (activities (save_write (save_read 1 (Date 2024 1 1) empty_db) 1 (Date 2024 1 1) (''09:00'', ''17:00'', [], 2)
       (save_write (save_read 1 (Date 2024 1 1) empty_db) 1 (Date 2024 1 1) (''08:00'', ''16:00'', [], 1) empty_db)))) = 2"
proof -
  have h: "find_activity 1 (Date 2024 1 1) (activities empty_db) = None"
    by (simp add: find_activity_def empty_db_def)
  from interleaved_saves_duplicate [OF h, of "(''09:00'', ''17:00'', [], 2)" "(''08:00'', ''16:00'', [], 1)"]
  show ?thesis by simp
qed

subsection \<open>Sessions and the dashboard\<close>

text \<open>
  C8. When clients only use the cookies the server issues, every session
  names a stored user (users are never deleted, and login binds only the id
  of a stored row), so \<open>/dashboard\<close> always renders the calendar page with
  that user's name.
\<close>

theorem honest_session_dashboard:
  assumes "honest_reachable S" "sessions S c = Some i"
  shows "\<exists>x. x \<in> set (users (store S)) \<and> uid x = i \<and>
             dashboard (sessions S c) (store S) = CalendarPage (username x)"
proof -
  obtain x where "x \<in> set (users (store S))" "uid x = i" using honest_sessions [OF assms] by blast
  then obtain y where y: "get_user i (users (store S)) = Some y" using get_user_mem by blast
  then have "dashboard (sessions S c) (store S) = CalendarPage (username y)"
    using assms(2) by (simp add: dashboard_def)
  with get_user_Some [OF y] show ?thesis by blast
qed

theorem honest_session_dashboard_witness:
  "\<exists>x. x \<in> set (users (snd (register_post (Some ''alice'') (Some ''pw'') empty_db))) \<and> uid x = 1 \<and>
       dashboard (Some 1) (snd (register_post (Some ''alice'') (Some ''pw'') empty_db)) = CalendarPage (username x)"
proof -
  let ?db = "snd (register_post (Some ''alice'') (Some ''pw'') empty_db)"
  have s2: "honest_reachable \<lparr>store = ?db, sessions = ((sessions init_sys)(0 := None))(0 := Some 1)\<rparr>"
    using honest_reachable.serve [OF alice_registered_honest,
        where e = "\<lparr>parser = (\<lambda>_. None), now = 0, today = Date 2024 1 1\<rparr>"
        and r = "Login (Some ''alice'') (Some ''pw'')" and c = 0 and resp = "Redirect EP_dashboard"]
    by (simp add: alice_db login_post_def find_user_cred_def)
  have "sessions \<lparr>store = ?db, sessions = ((sessions init_sys)(0 := None))(0 := Some 1)\<rparr> 0 = Some 1" by simp
  from honest_session_dashboard [OF s2 this] show ?thesis by simp
qed

text \<open>
  C9. With a forged cookie, possible because the signing key is a constant of
  the source, a session can name no user, and \<open>/dashboard\<close> then fails with
  500 instead of redirecting to the login page.
\<close>

theorem forged_session_dashboard_error:
  "\<exists>S c. reachable S \<and> dashboard (sessions S c) (store S) = HttpError 500"
proof -
  let ?S = "init_sys\<lparr>sessions := (sessions init_sys)(0 := Some 1)\<rparr>"
  have "reachable ?S" by (rule reachable.step [OF reachable.init sys_step.forge])
  moreover have "dashboard (sessions ?S 0) (store ?S) = HttpError 500"
    by (simp add: init_sys_def dashboard_def get_user_def empty_db_def)
  ultimately show ?thesis by blast
qed

subsection \<open>The shape of every answer\<close>

text \<open>
  C16. Whatever the request data, session and database, a route answers JSON
  exactly when it is one of the calendar and statistics routes and the answer
  is not an error page of Flask itself (only \<open>POST /event\<close> with a body that
  is not JSON gets one among these routes), and its HTTP status is one of
  those its handler can return: for instance \<open>/event/delete\<close> only 200, 401 or
  404, \<open>/events\<close> 200 or 500, \<open>POST /event\<close> 200, 400, 401, 415 or 500.
\<close>

theorem handle_response_type:
  "json_response (fst (handle e r s db)) = (json_route r \<and> \<not> flask_error (fst (handle e r s db))) \<and>
   status (fst (handle e r s db)) \<in> route_status r"
  using handle_responses [of e r s db] by (cases r) auto

subsection \<open>Concurrent registrations\<close>

text \<open>
  C18. Two registrations of the same new user name whose reads both precede
  their writes: the first creates the user, the second hits the unique
  constraint and fails with 500 leaving the database as the first left it,
  so user names stay distinct, in contrast to the activity race.
\<close>

theorem interleaved_registrations:
  assumes inv: "db_inv db" and fresh: "find_user_by_name n (users db) = None"
  shows "fst (register_write (register_read n db) n p1 db) = Redirect EP_login \<and>
         register_write (register_read n db) n p2 (snd (register_write (register_read n db) n p1 db)) =
           (HttpError 500, snd (register_write (register_read n db) n p1 db)) \<and>
         db_inv (snd (register_write (register_read n db) n p2 (snd (register_write (register_read n db) n p1 db))))"
proof -
  have r: "register_read n db = RegInsert" using fresh by (simp add: register_read_def)
  have w1: "register_write RegInsert n p1 db = register_post (Some n) (Some p1) db"
    using fresh by (simp add: register_post_def register_write_def)
  have inv1: "db_inv (snd (register_post (Some n) (Some p1) db))" using inv by (rule register_post_inv)
  have "n \<in> username ` set (users (snd (register_post (Some n) (Some p1) db)))"
    using fresh by (simp add: register_post_def)
  then have taken: "find_user_by_name n (users (snd (register_post (Some n) (Some p1) db))) \<noteq> None"
    using find_user_by_name_None by blast
  show ?thesis
    using inv1 taken fresh by (simp add: r w1 register_write_def) (simp add: register_post_def)
qed

theorem interleaved_registrations_witness:
  "fst (register_write (register_read ''alice'' empty_db) ''alice'' ''pw1'' empty_db) = Redirect EP_login \<and>
   register_write (register_read ''alice'' empty_db) ''alice'' ''pw2''
      (snd (register_write (register_read ''alice'' empty_db) ''alice'' ''pw1'' empty_db)) =
     (HttpError 500, snd (register_write (register_read ''alice'' empty_db) ''alice'' ''pw1'' empty_db)) \<and>
   db_inv (snd (register_write (register_read ''alice'' empty_db) ''alice'' ''pw2''
      (snd (register_write (register_read ''alice'' empty_db) ''alice'' ''pw1'' empty_db))))"
proof -
  have h1: "db_inv empty_db" by (simp add: db_inv_def empty_db_def)
  have h2: "find_user_by_name ''alice'' (users empty_db) = None" by (simp add: find_user_by_name_def empty_db_def)
  from interleaved_registrations [OF h1 h2] show ?thesis .
qed

end
