(* ===== verification/Spec2Isabelle.thy ===== *)
theory Spec2Isabelle
  imports App
begin

text \<open>
  \<^bold>\<open>A verification model of the work-log tracker \<open>src/app.py\<close>.\<close>

  \<^bold>\<open>The program.\<close> One Flask module backed by SQLite through SQLAlchemy.
  Three tables (\<open>User\<close>, \<open>Activity\<close>, \<open>Feedback\<close>, lines 15--35) and a
  signed session cookie holding \<open>user_id\<close> are the whole state. Handlers:
  \<open>index\<close>, \<open>register\<close>, \<open>login\<close>, \<open>dashboard\<close>, \<open>logout\<close> (the session),
  \<open>get_events\<close>, \<open>get_event\<close>, \<open>save_event\<close>, \<open>delete_event\<close> (the calendar
  of activities), \<open>submit_feedback\<close> (the public form) and
  \<open>calculate_statistics\<close> (aggregates over a date range). Handlers share
  nothing but the database and the client's cookie; each request is one
  transaction that commits at the end or is discarded.

  \<^bold>\<open>Theories, in import order.\<close>
  \<^item> \<open>Prelude\<close>: identifier and session types, the theorem collections
    \<open>handler_defs\<close> and \<open>inv_intros\<close>, generic lemmas on \<open>find\<close>, \<open>filter\<close>
    and distinct keys.
  \<^item> \<open>PyLib\<close>: the Python builtins applied to request data: \<open>str.split\<close>
    (\<open>split_on\<close>), \<open>int()\<close> on a string (\<open>py_int\<close>, \<open>strip\<close>,
    \<open>dig_run\<close>), \<open>'%0Nd'\<close> formatting (\<open>zpad\<close>), \<open>sum\<close>/\<open>max\<close>/\<open>min\<close>
    (\<open>py_sum\<close>, \<open>py_max\<close>, \<open>py_min\<close>, with \<open>py_max_Max\<close>,
    \<open>py_min_Min\<close> relating them to \<open>Max\<close>/\<open>Min\<close>) and \<open>round(x, 2)\<close>
    (\<open>round2\<close>, ties to even, monotone by \<open>round2_mono\<close>).
  \<^item> \<open>Dates\<close>: \<open>datetime.date\<close> as \<open>date\<close> with validity, Python's order
    as a \<open>linorder\<close> instance, \<open>replace\<close>, \<open>isoformat\<close>, \<open>strftime\<close>
    (with glibc's unpadded \<open>%Y\<close>),
    and \<open>iso_parse\<close>, a reader of ISO dates that inverts \<open>isoformat\<close>.
    \<open>dateutil.parser.parse\<close> is a library: every handler that parses a date
    takes the parser as a parameter \<open>pd :: date_parser\<close>, \<open>None\<close> where it
    raises.
  \<^item> \<open>Store\<close>: the rows as records, \<open>db\<close> as one list per table in rowid
    order (what SQLite returns for an unordered query), \<open>next_rowid\<close>
    (largest rowid plus one, as for an \<open>INTEGER PRIMARY KEY\<close>), the queries
    (\<open>find_activity\<close> is \<open>filter_by(...).first()\<close>, \<open>get_activity\<close> is
    \<open>query.get\<close>, \<open>activities_in_range\<close> is the date filter and
    \<open>activities_in_range_sql\<close> the same filter on ISO text, as SQLite
    evaluates it), the \<open>response\<close> datatype with Flask's reading of it
    (\<open>json_response\<close>, \<open>status\<close>) and the invariant \<open>db_inv\<close>.
  \<^item> \<open>Activities\<close>: \<open>get_events\<close>, \<open>get_event\<close>, \<open>save_event\<close> with
    its request wrapper \<open>save_event_request\<close>, \<open>delete_event\<close>
    (lines 78--165) and the abstraction \<open>calendar\<close>: per user,
    a partial map from dates to (start, end, notes, salary).
  \<^item> \<open>Auth\<close>: \<open>register_post\<close>, \<open>login_post\<close>, \<open>dashboard\<close>, \<open>logout\<close>
    (lines 47--76, 167--170).
  \<^item> \<open>Feedback\<close>: \<open>index\<close> and \<open>submit_feedback\<close> (lines 42--45, 172--189).
  \<^item> \<open>Statistics\<close>: \<open>period_range\<close>, \<open>parse_hm\<close>, \<open>calc_duration\<close>,
    \<open>aggregate\<close>, \<open>calculate_statistics\<close> (lines 194--267).
  \<^item> \<open>App\<close>: the routes as the datatype \<open>request\<close> and one step function
    \<open>handle\<close>; the system \<open>sys\<close> of one database and one session per client;
    the step relation \<open>sys_step\<close> (a client is served, or presents a forged
    cookie), \<open>reachable\<close>, and \<open>honest_reachable\<close> (served requests only);
    \<open>save_read\<close>/\<open>save_write\<close> and \<open>register_read\<close>/\<open>register_write\<close>,
    the two halves of \<open>save_event\<close> and of \<open>register\<close>; the route tables
    \<open>json_route\<close>, \<open>route_status\<close> and \<open>responses\<close>.

  \<^bold>\<open>How the code is modelled.\<close> Each handler is one definition taking the
  session (\<open>sess = uid option\<close>, the value of \<open>session['user_id']\<close>), the
  request data (a missing form or JSON key is \<open>None\<close>) and the database, and
  returning the response with the new database or session. Every early return
  and every exception is a branch: an exception caught by the handler's
  \<open>except\<close> is \<open>JsonException\<close> (or the feedback form's 500 text), one it
  does not catch is \<open>HttpError\<close> with Flask's status. A failed request
  changes nothing, since an uncommitted SQLAlchemy session is discarded at the
  end of the request. Floats are exact reals; Python's unbounded ints are
  \<open>int\<close>. No fuel or bound is needed: the handlers contain no loop but
  comprehensions over finite query results, and every function of the model
  is structurally recursive. The server (\<open>app.run()\<close>, lines 269--273) is
  the step relation \<open>sys_step\<close>, one served request per step; overlapping
  requests are sequences of the read and write halves of a handler.

  \<^bold>\<open>What is proved.\<close> The claims C1--C33 are marked in the theories.
  \<^item> Activities: \<open>save_event\<close> refines the calendar update (C1) and is an
    upsert, so two saves leave one row with the second values (C2);
    \<open>delete_event\<close> refines removal of one date (C3) and refuses non-owners
    with 404 and no change (C4); save then get returns the saved data
    verbatim (C10); failures change nothing (C11); success needs only the
    keys and a parsable date, no validation of values (C12); \<open>get_events\<close>
    lists exactly the user's dated entries in the range, by ISO date, none
    twice, in id order (C13), and every listed event is found again by
    \<open>get_event\<close> at its ISO date (C14); when the deleted row is last in rowid
    order and its id is one more than every remaining id, that id is handed
    to the next saved row (C15).
  \<^item> The whole application: in every reachable state the database invariant
    holds, whatever clients send, forged cookies included (C5, by rule
    induction on \<open>reachable\<close>); without a session no protected route touches
    anything (C6); two concurrent saves whose reads precede their writes
    duplicate a row (C7), the race the specification records (the lemma
    \<open>save_event_read_write\<close> shows that a save run alone is its read half
    then its write half, so the halves are those of the handler); with
    server-issued cookies every session names a stored user and
    \<open>/dashboard\<close> renders (C8, rule induction on \<open>honest_reachable\<close>), while
    a forged cookie reaches the unguarded 500 (C9); every route answers JSON
    exactly when it is an API route and not one of Flask's own error pages,
    with a status from its handler's set (C16); concurrent registrations of
    one name are stopped by the unique constraint, the second with a 500
    (C18).
  \<^item> Store: the range query SQLite runs on ISO date text selects what date
    order selects (C17, via \<open>isoformat_le\<close>: zero-padded numbers compare
    lexicographically as numbers).
  \<^item> Auth: duplicate registration is refused (C19), login with stored
    credentials binds the session (C20), failed login leaves the session as
    it was (C21), registration then login succeeds (C22).
  \<^item> Statistics: the answer is the rounded sum, maximum and minimum of
    durations and salaries with one detail per activity (C23); an empty
    range gives zeros (C24); min/max and details are ordered (C25); the
    "week" period covers \<open>min 8 d\<close> days (C26), "month" and "year" start at
    the first of the month and of January (C27), any other period is a 400
    while a body that is not a JSON object is a 500 (C28); durations of
    \<open>"HH:MM"\<close> times are end minus start, negative overnight (C29); one
    malformed time in the range makes the whole request a 500 (C30).
  \<^item> Feedback: the home page is a permutation of the table sorted newest
    first (C31), a new submission comes first (C32); a submission with an
    empty field is answered 400 and one with a missing field 500, both
    without a change to the table (C33).

  Request bodies follow where the source reads them. \<open>/statistics\<close> reads
  \<open>request.json\<close> inside its \<open>try\<close>: its body is \<open>stats_req option\<close>, and
  \<open>None\<close> (no JSON object) is the 500 exception answer. \<open>POST /event\<close> reads
  it before its \<open>try\<close>: its body is \<open>json_failure + event_req\<close>, and
  \<open>save_event_request\<close> answers a body that cannot be read with Flask's own
  415 or 400 before handing a JSON value to \<open>save_event\<close> (a JSON value
  that is not an object raises on \<open>data['date']\<close> inside the \<open>try\<close>,
  like an object without the key).

  \<^bold>\<open>Not modelled.\<close> Template rendering, static files, the Flask routing
  machinery and cookie signing (their effect is the request/response model);
  the configuration of lines 7--11 (the secret key only matters through the
  forged-cookie rule of \<open>sys_step\<close>, the database URI through \<open>db\<close>);
  \<open>dateutil\<close>'s parser (a parameter); the JSON types of request values
  (start, end and notes are strings, salary a number); IEEE rounding of
  floats and of \<open>round\<close>; non-ASCII digits and whitespace in \<open>int()\<close>;
  the four-digit \<open>%Y\<close> of C libraries other than glibc (it differs from
  the model only for years below 1000); SQLite's random rowids after \<open>2^63-1\<close>; the unique-constraint branch
  inside the single-request \<open>register_post\<close>, which its own existence check
  makes unreachable (the branch is modelled in \<open>register_write\<close>, where two
  requests interleave).
\<close>

end
